theory Spec2Isabelle
  imports Complex_Main "HOL-Library.Log_Nat"
begin

section \<open>Column cells\<close>

text \<open>
  The program is written against Polars columns. A Float64 cell is null, NaN, an
  infinity or a finite number; finite numbers are modelled as reals (no signed
  zero), and arithmetic on them is exact except in the probability expression,
  where the quotient, its scaling and \<open>round(2)\<close> are rounded to doubles. A Boolean
  cell is \<open>bool option\<close>, \<open>None\<close> being null. A column (Series or evaluated
  expression) is a list of cells.

  The column operations the program calls are library functions; they are modelled
  with the behaviour Polars 1.x documents for the arguments the program passes:
  \<^item> arithmetic and comparisons propagate null; float division by zero follows
    IEEE 754; comparisons order NaN above every number and equal to itself;
  \<^item> \<open>rolling_sum\<close> and \<open>rolling_mean\<close> keep the default \<open>min_samples\<close> (the window
    size), and \<open>rolling_mean\<close> with weights is the weighted mean;
  \<^item> \<open>ewm_mean\<close> keeps the defaults \<open>ignore_nulls=False\<close> and \<open>min_samples=1\<close>, and
    its output is null where its input is null;
  \<^item> \<open>round\<close> keeps the default mode, ties to even.
  The periods are natural numbers: a negative period is outside the model.
\<close>

datatype cell = Null | NaN | PInf | NInf | Val real

type_synonym bcell = "bool option"

definition signed_inf :: "real \<Rightarrow> cell" where
  "signed_inf s = (if 0 < s then PInf else if s < 0 then NInf else NaN)"

fun sign_of :: "cell \<Rightarrow> real" where
  "sign_of PInf = 1"
| "sign_of NInf = -1"
| "sign_of (Val x) = sgn x"
| "sign_of _ = 0"

fun cneg :: "cell \<Rightarrow> cell" where
  "cneg Null = Null"
| "cneg NaN = NaN"
| "cneg PInf = NInf"
| "cneg NInf = PInf"
| "cneg (Val x) = Val (- x)"

fun cabs :: "cell \<Rightarrow> cell" where
  "cabs Null = Null"
| "cabs NaN = NaN"
| "cabs PInf = PInf"
| "cabs NInf = PInf"
| "cabs (Val x) = Val \<bar>x\<bar>"

fun cadd :: "cell \<Rightarrow> cell \<Rightarrow> cell" where
  "cadd Null _ = Null"
| "cadd _ Null = Null"
| "cadd NaN _ = NaN"
| "cadd _ NaN = NaN"
| "cadd (Val x) (Val y) = Val (x + y)"
| "cadd PInf NInf = NaN"
| "cadd NInf PInf = NaN"
| "cadd PInf _ = PInf"
| "cadd NInf _ = NInf"
| "cadd _ PInf = PInf"
| "cadd _ NInf = NInf"

definition csub :: "cell \<Rightarrow> cell \<Rightarrow> cell" where
  "csub a b = cadd a (cneg b)"

fun cmul :: "cell \<Rightarrow> cell \<Rightarrow> cell" where
  "cmul Null _ = Null"
| "cmul _ Null = Null"
| "cmul NaN _ = NaN"
| "cmul _ NaN = NaN"
| "cmul (Val x) (Val y) = Val (x * y)"
| "cmul a b = signed_inf (sign_of a * sign_of b)"

text \<open>IEEE division: a finite numerator over zero is an infinity, \<open>0/0\<close> is NaN.\<close>

fun cdiv :: "cell \<Rightarrow> cell \<Rightarrow> cell" where
  "cdiv Null _ = Null"
| "cdiv _ Null = Null"
| "cdiv NaN _ = NaN"
| "cdiv _ NaN = NaN"
| "cdiv (Val x) (Val y) = (if y = 0 then signed_inf x else Val (x / y))"
| "cdiv (Val x) _ = Val 0"
| "cdiv a (Val y) = signed_inf (sign_of a * (if y < 0 then -1 else 1))"
| "cdiv _ _ = NaN"

text \<open>
  Comparisons give null when an operand is null. Polars orders floats totally:
  NaN equals NaN and is greater than every other value.
\<close>

fun total_less :: "cell \<Rightarrow> cell \<Rightarrow> bool" where
  "total_less _ NInf = False"
| "total_less NInf _ = True"
| "total_less NaN _ = False"
| "total_less _ NaN = True"
| "total_less PInf _ = False"
| "total_less _ PInf = True"
| "total_less (Val x) (Val y) = (x < y)"
| "total_less _ _ = False"

fun clt :: "cell \<Rightarrow> cell \<Rightarrow> bcell" where
  "clt Null _ = None"
| "clt _ Null = None"
| "clt a b = Some (total_less a b)"

definition cgt :: "cell \<Rightarrow> cell \<Rightarrow> bcell" where
  "cgt a b = clt b a"

fun ceq :: "cell \<Rightarrow> cell \<Rightarrow> bcell" where
  "ceq Null _ = None"
| "ceq _ Null = None"
| "ceq a b = Some (a = b)"

text \<open>Three-valued \<open>&\<close> and \<open>|\<close> on Boolean cells (Kleene logic).\<close>

fun band :: "bcell \<Rightarrow> bcell \<Rightarrow> bcell" where
  "band (Some False) _ = Some False"
| "band _ (Some False) = Some False"
| "band (Some True) (Some True) = Some True"
| "band _ _ = None"

fun bor :: "bcell \<Rightarrow> bcell \<Rightarrow> bcell" where
  "bor (Some True) _ = Some True"
| "bor _ (Some True) = Some True"
| "bor (Some False) (Some False) = Some False"
| "bor _ _ = None"

section \<open>Column operations\<close>

text \<open>\<open>shift(1)\<close>: every value moves one position down, the first becomes null.\<close>

definition shift1 :: "'a \<Rightarrow> 'a list \<Rightarrow> 'a list" where
  "shift1 null xs = (if xs = [] then [] else null # butlast xs)"

definition diff :: "cell list \<Rightarrow> cell list" where
  "diff xs = map2 csub xs (shift1 Null xs)"

fun fill_null_cell :: "cell \<Rightarrow> cell \<Rightarrow> cell" where
  "fill_null_cell v Null = v"
| "fill_null_cell v c = c"

fun fill_nan_cell :: "cell \<Rightarrow> cell \<Rightarrow> cell" where
  "fill_nan_cell v NaN = v"
| "fill_nan_cell v c = c"

definition fill_null :: "cell \<Rightarrow> cell list \<Rightarrow> cell list" where
  "fill_null v xs = map (fill_null_cell v) xs"

definition fill_nan :: "cell \<Rightarrow> cell list \<Rightarrow> cell list" where
  "fill_nan v xs = map (fill_nan_cell v) xs"

definition fill_null_False :: "bcell list \<Rightarrow> bool list" where
  "fill_null_False bs = map (\<lambda>b. case b of None \<Rightarrow> False | Some t \<Rightarrow> t) bs"

text \<open>
  \<open>pl.when(c).then(a).otherwise(b)\<close>: the \<open>then\<close> value where the condition is true,
  the \<open>otherwise\<close> value where it is false or null.
\<close>

definition when_cell :: "bcell \<Rightarrow> cell \<Rightarrow> cell \<Rightarrow> cell" where
  "when_cell c a b = (if c = Some True then a else b)"

definition when_then_otherwise :: "bcell list \<Rightarrow> cell list \<Rightarrow> cell list \<Rightarrow> cell list" where
  "when_then_otherwise cs as bs = map (\<lambda>(c, a, b). when_cell c a b) (zip cs (zip as bs))"

text \<open>\<open>replace(0, None)\<close> and \<open>when(x == 0).then(None).otherwise(x)\<close>.\<close>

definition replace_0_None :: "cell list \<Rightarrow> cell list" where
  "replace_0_None xs = map (\<lambda>x. if x = Val 0 then Null else x) xs"

definition when_eq0_None :: "cell list \<Rightarrow> cell list" where
  "when_eq0_None xs = map (\<lambda>x. when_cell (ceq x (Val 0)) Null x) xs"

text \<open>\<open>forward_fill()\<close>: a null takes the nearest preceding non-null value, if any.\<close>

fun forward_fill_from :: "cell \<Rightarrow> cell list \<Rightarrow> cell list" where
  "forward_fill_from prev [] = []"
| "forward_fill_from prev (x # xs) =
     (if x = Null then prev # forward_fill_from prev xs else x # forward_fill_from x xs)"

definition forward_fill :: "cell list \<Rightarrow> cell list" where
  "forward_fill xs = forward_fill_from Null xs"

text \<open>
  Rolling windows. With \<open>min_samples\<close> left at its default (the window size), a
  position has a result only when the full window \<open>[i - w + 1, i]\<close> lies inside
  the column and holds no null; otherwise the result is null.
\<close>

definition window_at :: "nat \<Rightarrow> 'a list \<Rightarrow> nat \<Rightarrow> 'a list option" where
  "window_at w xs i = (if i + 1 < w then None else Some (take w (drop (i + 1 - w) xs)))"

definition rolling_sum_at :: "nat \<Rightarrow> bcell list \<Rightarrow> nat \<Rightarrow> cell" where
  "rolling_sum_at w bs i =
     (case window_at w bs i of
        None \<Rightarrow> Null
      | Some win \<Rightarrow>
          if None \<in> set win then Null
          else Val (real (length (filter (\<lambda>b. b = Some True) win))))"

definition rolling_sum :: "nat \<Rightarrow> bcell list \<Rightarrow> cell list" where
  "rolling_sum w bs = map (rolling_sum_at w bs) [0..<length bs]"

text \<open>
  \<open>rolling_mean(window_size, weights)\<close> on a column without nulls: the weights are
  normalised to sum 1 and the window's values are summed with them (a weighted mean).
\<close>

fun weighted_sum :: "real list \<Rightarrow> cell list \<Rightarrow> cell" where
  "weighted_sum (w # ws) (x # xs) = cadd (cmul (Val w) x) (weighted_sum ws xs)"
| "weighted_sum _ _ = Val 0"

definition rolling_mean_at :: "real list \<Rightarrow> cell list \<Rightarrow> nat \<Rightarrow> cell" where
  "rolling_mean_at ws xs i =
     (case window_at (length ws) xs i of
        None \<Rightarrow> Null
      | Some win \<Rightarrow>
          if Null \<in> set win then Null
          else weighted_sum (map (\<lambda>w. w / sum_list ws) ws) win)"

definition rolling_mean :: "real list \<Rightarrow> cell list \<Rightarrow> cell list" where
  "rolling_mean ws xs = map (rolling_mean_at ws xs) [0..<length xs]"

text \<open>
  \<open>ewm_mean(alpha, adjust=False)\<close> with the defaults \<open>ignore_nulls=False\<close> and
  \<open>min_samples=1\<close>. The scan carries the current average (\<open>None\<close> before the first
  non-null input) and the weight \<open>old_wt\<close> of that average, which decays by
  \<open>1 - alpha\<close> at every position, null or not, and is reset to 1 by a non-null input.
  The output at a null input is null (nulls are preserved, not forward-filled).
\<close>

fun ewm_step :: "real \<Rightarrow> cell option \<times> real \<Rightarrow> cell \<Rightarrow> cell option \<times> real" where
  "ewm_step alpha (None, old_wt) x = ((if x = Null then None else Some x), old_wt)"
| "ewm_step alpha (Some avg, old_wt) x =
     (if x = Null then (Some avg, old_wt * (1 - alpha))
      else ((if avg \<noteq> x
             then Some (cdiv (cadd (cmul (Val (old_wt * (1 - alpha))) avg) (cmul (Val alpha) x))
                             (Val (old_wt * (1 - alpha) + alpha)))
             else Some avg), 1))"

fun ewm_scan :: "real \<Rightarrow> cell option \<times> real \<Rightarrow> cell list \<Rightarrow> cell list" where
  "ewm_scan alpha st [] = []"
| "ewm_scan alpha st (x # xs) =
     (let st' = ewm_step alpha st x
      in (if x = Null then Null else (case fst st' of None \<Rightarrow> Null | Some a \<Rightarrow> a))
         # ewm_scan alpha st' xs)"

definition ewm_mean :: "real \<Rightarrow> cell list \<Rightarrow> cell list" where
  "ewm_mean alpha xs = ewm_scan alpha (None, 1) xs"

text \<open>Rounding to an integer, ties to the even neighbour (the default mode of \<open>round\<close>).\<close>

definition round_half_even :: "real \<Rightarrow> int" where
  "round_half_even x =
     (let f = \<lfloor>x\<rfloor>; d = x - of_int f
      in if d < 1/2 then f else if 1/2 < d then f + 1 else if even f then f else f + 1)"

text \<open>
  Rounding to two decimals is discontinuous, so in the probability expression the
  rounding of each intermediate result to a double matters. \<open>fl\<close> rounds a real to
  the nearest number with 53 significant bits, ties to even (IEEE 754 binary64
  without overflow, underflow or subnormal numbers); \<open>dbl_exponent x\<close> is the
  exponent \<open>e\<close> with \<open>2^e \<le> |x| < 2^(e+1)\<close>; \<open>dbl\<close> applies \<open>fl\<close> to a finite cell.
\<close>

definition pow2 :: "int \<Rightarrow> real" where
  "pow2 e = (if 0 \<le> e then 2 ^ nat e else 1 / 2 ^ nat (- e))"

definition dbl_exponent :: "real \<Rightarrow> int" where
  "dbl_exponent x =
     (if 1 \<le> \<bar>x\<bar> then bitlen \<lfloor>\<bar>x\<bar>\<rfloor> - 1 else - bitlen (\<lceil>1 / \<bar>x\<bar>\<rceil> - 1))"

definition fl :: "real \<Rightarrow> real" where
  "fl x =
     (if x = 0 then 0
      else let ulp = pow2 (dbl_exponent x - 52)
           in of_int (round_half_even (x / ulp)) * ulp)"

fun dbl :: "cell \<Rightarrow> cell" where
  "dbl (Val x) = Val (fl x)"
| "dbl c = c"

text \<open>\<open>round(2)\<close> on a double \<open>x\<close>: \<open>(x * 100)\<close> rounded to an integer, divided by 100.\<close>

fun round2 :: "cell \<Rightarrow> cell" where
  "round2 (Val x) = Val (fl (of_int (round_half_even (fl (x * 100))) / 100))"
| "round2 c = c"

section \<open>Input data, parameters and the technical-analysis backend\<close>

record bar =
  opn :: cell
  high :: cell
  low :: cell
  close :: cell
  volume :: cell

datatype column = Open | High | Low | Close | Volume

fun col :: "column \<Rightarrow> bar list \<Rightarrow> cell list" where
  "col Open df = map opn df"
| "col High df = map high df"
| "col Low df = map low df"
| "col Close df = map close df"
| "col Volume df = map volume df"

text \<open>
  The parameters after the \<open>int(...)\<close> conversions of the periods. The weights are
  kept as passed: the two variants convert them differently.
\<close>

record params =
  lookbackPeriod :: nat
  source_col :: column
  rsiPeriod :: nat
  adxPeriod :: nat
  cciPeriod :: nat
  vwmaPeriod :: nat
  weightPrice :: real
  weightRSI :: real
  weightADX :: real
  weightCCI :: real
  weightVWMA :: real

text \<open>
  The \<open>.ta\<close> accessor (TRANGE, RSI, CCI, SMA) is an external numeric library; the
  program is modelled over any implementation of the four functions. The first
  argument is the column the accessor is applied to.
\<close>

record talib =
  trange :: "cell list \<Rightarrow> cell list \<Rightarrow> cell list \<Rightarrow> cell list"
  rsi :: "cell list \<Rightarrow> nat \<Rightarrow> cell list"
  cci :: "cell list \<Rightarrow> cell list \<Rightarrow> cell list \<Rightarrow> nat \<Rightarrow> cell list"
  sma :: "cell list \<Rightarrow> nat \<Rightarrow> cell list"

datatype error = ZeroDivisionError

section \<open>Shared expression shapes\<close>

text \<open>Column-wise arithmetic and comparisons, against a column or a literal.\<close>

definition gt_lit :: "cell list \<Rightarrow> real \<Rightarrow> bcell list" where
  "gt_lit xs v = map (\<lambda>x. cgt x (Val v)) xs"

definition lt_lit :: "cell list \<Rightarrow> real \<Rightarrow> bcell list" where
  "lt_lit xs v = map (\<lambda>x. clt x (Val v)) xs"

definition eq_lit :: "cell list \<Rightarrow> real \<Rightarrow> bcell list" where
  "eq_lit xs v = map (\<lambda>x. ceq x (Val v)) xs"

definition lit :: "cell \<Rightarrow> 'a list \<Rightarrow> cell list" where
  "lit v xs = map (\<lambda>_. v) xs"

text \<open>\<open>cond.shift(1).rolling_sum(window_size=lookbackPeriod)\<close>.\<close>

definition lagged_count :: "nat \<Rightarrow> bcell list \<Rightarrow> cell list" where
  "lagged_count w bs = rolling_sum w (shift1 None bs)"

text \<open>
  \<open>(trends / safe_total * 100).round(2).fill_null(0)\<close>, the quotient and the product
  each rounded to a double.
\<close>

definition ratio_pct :: "cell list \<Rightarrow> cell list \<Rightarrow> cell list" where
  "ratio_pct trends safe_total =
     fill_null (Val 0)
       (map round2 (map2 (\<lambda>u t. dbl (cmul (dbl (cdiv u t)) (Val 100))) trends safe_total))"

section \<open>The whole-array variant (probability_trend.py)\<close>

definition ratQ_weights :: "nat \<Rightarrow> error + real list" where
  "ratQ_weights lookback =
     (if (real lookback)\<^sup>2 * 2 = 0 then Inl ZeroDivisionError
      else Inr (map (\<lambda>i. 1 / (1 + i\<^sup>2 / ((real lookback)\<^sup>2 * 2))) [1, 0]))"

definition ratQ :: "cell list \<Rightarrow> nat \<Rightarrow> error + cell list" where
  "ratQ series_pl lookback =
     (case ratQ_weights lookback of
        Inl e \<Rightarrow> Inl e
      | Inr weights \<Rightarrow> Inr (rolling_mean weights (fill_null (Val 0) (fill_nan (Val 0) series_pl))))"

definition int_plusDM :: "cell list \<Rightarrow> cell list \<Rightarrow> cell list" where
  "int_plusDM up down =
     when_then_otherwise (map2 band (map2 cgt up down) (gt_lit up 0)) up (lit (Val 0) up)"

definition int_minusDM :: "cell list \<Rightarrow> cell list \<Rightarrow> cell list" where
  "int_minusDM up down =
     when_then_otherwise (map2 band (map2 cgt down up) (gt_lit down 0)) down (lit (Val 0) down)"

definition internal_ProbTrend_dirmov ::
  "talib \<Rightarrow> bar list \<Rightarrow> nat \<Rightarrow> error + cell list \<times> cell list" where
  "internal_ProbTrend_dirmov ta df len =
     (let up = diff (col High df);
          down = map cneg (diff (col Low df));
          plusDM = int_plusDM up down;
          minusDM = int_minusDM up down;
          truerange = trange ta (col Close df) (col High df) (col Low df)
      in if len = 0 then Inl ZeroDivisionError
         else
           let alpha = 1 / real len;
               minus_ewm = ewm_mean alpha (fill_nan Null minusDM);
               plus_ewm = ewm_mean alpha (fill_nan Null plusDM);
               truerange_ewm = ewm_mean alpha (fill_nan Null truerange);
               plus_intermediate = map2 cdiv (map (\<lambda>x. cmul x (Val 100)) plus_ewm) truerange_ewm;
               minus_intermediate = map2 cdiv (map (\<lambda>x. cmul x (Val 100)) minus_ewm) truerange_ewm
           in Inr (fill_null (Val 0) plus_intermediate, fill_null (Val 0) minus_intermediate))"

definition adx_of :: "cell list \<Rightarrow> cell list \<Rightarrow> real \<Rightarrow> cell list" where
  "adx_of plus_di minus_di alpha =
     (let summ = map2 cadd plus_di minus_di;
          safe_summ = when_then_otherwise (eq_lit summ 0) (lit (Val 1) summ) summ;
          adx_operand = map2 cdiv (map cabs (map2 csub plus_di minus_di)) safe_summ;
          adx_ewm = ewm_mean alpha adx_operand
      in map (\<lambda>x. cmul (Val 100) x) adx_ewm)"

definition internal_ProbTrend_adx ::
  "talib \<Rightarrow> bar list \<Rightarrow> nat \<Rightarrow> nat \<Rightarrow> error + cell list \<times> cell list \<times> cell list" where
  "internal_ProbTrend_adx ta df dilen adxlen =
     (case internal_ProbTrend_dirmov ta df dilen of
        Inl e \<Rightarrow> Inl e
      | Inr (plus_di, minus_di) \<Rightarrow>
          if adxlen = 0 then Inl ZeroDivisionError
          else Inr (adx_of plus_di minus_di (1 / real adxlen), plus_di, minus_di))"

text \<open>Python's \<open>int(x)\<close> on a number: truncation towards zero.\<close>

definition py_int :: "real \<Rightarrow> int" where
  "py_int x = (if 0 \<le> x then \<lfloor>x\<rfloor> else \<lceil>x\<rceil>)"

definition priceChangePercentage :: "cell list \<Rightarrow> cell list" where
  "priceChangePercentage src =
     map2 (\<lambda>priceChange prev. cmul (cdiv priceChange prev) (Val 100)) (diff src) (shift1 Null src)"

text \<open>Each sub-indicator yields the pair (probabilityUpward, probabilityDownward).\<close>

definition probabilities :: "cell list \<Rightarrow> cell list \<Rightarrow> cell list \<times> cell list" where
  "probabilities upwardTrends downwardTrends =
     (let totalTrends = map2 cadd upwardTrends downwardTrends
      in (ratio_pct upwardTrends (replace_0_None totalTrends),
          ratio_pct downwardTrends (replace_0_None totalTrends)))"

definition price_probabilities :: "params \<Rightarrow> bar list \<Rightarrow> error + cell list \<times> cell list" where
  "price_probabilities p df =
     (case ratQ (priceChangePercentage (col (source_col p) df)) (lookbackPeriod p) of
        Inl e \<Rightarrow> Inl e
      | Inr rationalQuadraticKernel \<Rightarrow>
          Inr (probabilities
                 (lagged_count (lookbackPeriod p) (gt_lit rationalQuadraticKernel 0))
                 (lagged_count (lookbackPeriod p) (lt_lit rationalQuadraticKernel 0))))"

definition rsi_probabilities :: "talib \<Rightarrow> params \<Rightarrow> bar list \<Rightarrow> cell list \<times> cell list" where
  "rsi_probabilities ta p df =
     (let rsiValue = rsi ta (col Close df) (rsiPeriod p)
      in probabilities
           (lagged_count (lookbackPeriod p) (gt_lit rsiValue 50))
           (lagged_count (lookbackPeriod p) (lt_lit rsiValue 50)))"

definition adx_probabilities ::
  "talib \<Rightarrow> params \<Rightarrow> bar list \<Rightarrow> error + cell list \<times> cell list" where
  "adx_probabilities ta p df =
     (case internal_ProbTrend_adx ta df (adxPeriod p) (adxPeriod p) of
        Inl e \<Rightarrow> Inl e
      | Inr (adx, plus_di, minus_di) \<Rightarrow>
          let rolled_adx_condition = lagged_count (lookbackPeriod p) (gt_lit adx 25);
              upwardTrendsADX =
                when_then_otherwise (map2 cgt plus_di minus_di) rolled_adx_condition
                  (lit (Val 0) rolled_adx_condition);
              downwardTrendsADX =
                when_then_otherwise (map2 clt plus_di minus_di) rolled_adx_condition
                  (lit (Val 0) rolled_adx_condition)
          in Inr (probabilities upwardTrendsADX downwardTrendsADX))"

definition cci_probabilities :: "talib \<Rightarrow> params \<Rightarrow> bar list \<Rightarrow> cell list \<times> cell list" where
  "cci_probabilities ta p df =
     (let cciValue = cci ta (col Close df) (col Close df) (col Close df) (cciPeriod p)
      in probabilities
           (lagged_count (lookbackPeriod p) (gt_lit cciValue 0))
           (lagged_count (lookbackPeriod p) (lt_lit cciValue 0)))"

definition vwma_probabilities :: "talib \<Rightarrow> params \<Rightarrow> bar list \<Rightarrow> cell list \<times> cell list" where
  "vwma_probabilities ta p df =
     (let sma_vol_x_close = sma ta (map2 cmul (col Volume df) (col Close df)) (vwmaPeriod p);
          sma_vol = sma ta (col Volume df) (vwmaPeriod p);
          vwmaValue = map2 cdiv sma_vol_x_close (replace_0_None sma_vol);
          close_pl = col Close df
      in probabilities
           (lagged_count (lookbackPeriod p) (map2 cgt vwmaValue close_pl))
           (lagged_count (lookbackPeriod p) (map2 clt vwmaValue close_pl)))"

text \<open>
  \<open>(w1 * p1 + w2 * p2 + w3 * p3 + w4 * p4 + w5 * p5) / (w1 + w2 + w3 + w4 + w5)\<close>,
  column-wise, the weights being numbers.
\<close>

definition weighted_combination :: "real list \<Rightarrow> cell list list \<Rightarrow> cell list" where
  "weighted_combination ws ps =
     (case (ws, ps) of
        ([w1, w2, w3, w4, w5], [p1, p2, p3, p4, p5]) \<Rightarrow>
          map (\<lambda>x. cdiv x (Val (w1 + w2 + w3 + w4 + w5)))
            (map2 cadd (map2 cadd (map2 cadd (map2 cadd
               (map (cmul (Val w1)) p1) (map (cmul (Val w2)) p2))
               (map (cmul (Val w3)) p3)) (map (cmul (Val w4)) p4)) (map (cmul (Val w5)) p5))
      | _ \<Rightarrow> [])"

definition oscillator_of ::
  "real list \<Rightarrow> (cell list \<times> cell list) list \<Rightarrow> cell list" where
  "oscillator_of ws pairs =
     (let combinedProbabilityUpward = weighted_combination ws (map fst pairs);
          combinedProbabilityDownward = weighted_combination ws (map snd pairs)
      in map2 csub combinedProbabilityUpward combinedProbabilityDownward)"

text \<open>The crossing tests and the forward-filled signal (the \<open>return\<close> expression).\<close>

definition cross_up_cond :: "cell list \<Rightarrow> bcell list" where
  "cross_up_cond osc =
     map2 bor (gt_lit osc 0) (map2 band (eq_lit osc 0) (lt_lit (shift1 Null osc) 0))"

definition cross_down_cond :: "cell list \<Rightarrow> bcell list" where
  "cross_down_cond osc =
     map2 bor (lt_lit osc 0) (map2 band (eq_lit osc 0) (gt_lit (shift1 Null osc) 0))"

definition raw_signal :: "bool \<Rightarrow> bool \<Rightarrow> cell" where
  "raw_signal up down = (if up then Val 1 else if down then Val (- 1) else Null)"

definition signal_of :: "cell list \<Rightarrow> cell list" where
  "signal_of osc =
     forward_fill (map2 raw_signal (fill_null_False (cross_up_cond osc))
                                   (fill_null_False (cross_down_cond osc)))"

text \<open>The weights of the whole-array variant, after \<open>int(...)\<close>.\<close>

definition weights :: "params \<Rightarrow> real list" where
  "weights p = map (\<lambda>w. of_int (py_int w))
     [weightPrice p, weightRSI p, weightADX p, weightCCI p, weightVWMA p]"

definition combinedOscillatorValue :: "talib \<Rightarrow> params \<Rightarrow> bar list \<Rightarrow> error + cell list" where
  "combinedOscillatorValue ta p df =
     (case price_probabilities p df of
        Inl e \<Rightarrow> Inl e
      | Inr price \<Rightarrow>
          (case adx_probabilities ta p df of
             Inl e \<Rightarrow> Inl e
           | Inr adx \<Rightarrow>
               Inr (oscillator_of (weights p)
                      [price, rsi_probabilities ta p df, adx, cci_probabilities ta p df,
                       vwma_probabilities ta p df])))"

definition ProbTrend :: "talib \<Rightarrow> params \<Rightarrow> bar list \<Rightarrow> error + cell list" where
  "ProbTrend ta p df =
     (case combinedOscillatorValue ta p df of
        Inl e \<Rightarrow> Inl e
      | Inr osc \<Rightarrow> Inr (signal_of osc))"

section \<open>The deferred-expression variant (probability_trend_lazy.py)\<close>

text \<open>
  Each function of this variant builds a Polars expression; the definitions below
  give the column the expression evaluates to on the frame. \<open>_ratQ\<close> is the same
  text in both files and is modelled once.
\<close>

definition internal_ProbTrend_dirmov_lazy ::
  "talib \<Rightarrow> bar list \<Rightarrow> nat \<Rightarrow> error + cell list \<times> cell list" where
  "internal_ProbTrend_dirmov_lazy ta df len =
     (let up_expr = diff (col High df);
          down_expr = map cneg (diff (col Low df));
          int_plusDM_expr = int_plusDM up_expr down_expr;
          int_minusDM_expr = int_minusDM up_expr down_expr;
          truerange_expr = trange ta (col Close df) (col High df) (col Low df)
      in if len = 0 then Inl ZeroDivisionError
         else
           let alpha = 1 / real len;
               minus_ewm_expr = ewm_mean alpha (fill_nan Null int_minusDM_expr);
               plus_ewm_expr = ewm_mean alpha (fill_nan Null int_plusDM_expr);
               truerange_ewm_expr = ewm_mean alpha (fill_nan Null truerange_expr);
               safe_truerange_ewm_expr = when_eq0_None truerange_ewm_expr;
               plus_intermediate_expr =
                 fill_null (Val 0)
                   (map2 cdiv (map (\<lambda>x. cmul x (Val 100)) plus_ewm_expr) safe_truerange_ewm_expr);
               minus_intermediate_expr =
                 fill_null (Val 0)
                   (map2 cdiv (map (\<lambda>x. cmul x (Val 100)) minus_ewm_expr) safe_truerange_ewm_expr)
           in Inr (plus_intermediate_expr, minus_intermediate_expr))"

definition internal_ProbTrend_adx_lazy ::
  "talib \<Rightarrow> bar list \<Rightarrow> nat \<Rightarrow> nat \<Rightarrow> error + cell list \<times> cell list \<times> cell list" where
  "internal_ProbTrend_adx_lazy ta df dilen adxlen =
     (case internal_ProbTrend_dirmov_lazy ta df dilen of
        Inl e \<Rightarrow> Inl e
      | Inr (plus_expr, minus_expr) \<Rightarrow>
          if adxlen = 0 then Inl ZeroDivisionError
          else Inr (adx_of plus_expr minus_expr (1 / real adxlen), plus_expr, minus_expr))"

definition priceChangePercentage_lazy :: "cell list \<Rightarrow> cell list" where
  "priceChangePercentage_lazy src =
     (let safe_shifted_source_expr = when_eq0_None (shift1 Null src)
      in map2 (\<lambda>priceChange prev. cmul (cdiv priceChange prev) (Val 100))
           (diff src) safe_shifted_source_expr)"

definition probabilities_lazy :: "cell list \<Rightarrow> cell list \<Rightarrow> cell list \<times> cell list" where
  "probabilities_lazy upwardTrends_expr downwardTrends_expr =
     (let totalTrends_expr = map2 cadd upwardTrends_expr downwardTrends_expr;
          safe_totalTrends_expr = when_eq0_None totalTrends_expr
      in (ratio_pct upwardTrends_expr safe_totalTrends_expr,
          ratio_pct downwardTrends_expr safe_totalTrends_expr))"

definition price_probabilities_lazy :: "params \<Rightarrow> bar list \<Rightarrow> error + cell list \<times> cell list" where
  "price_probabilities_lazy p df =
     (case ratQ (priceChangePercentage_lazy (col (source_col p) df)) (lookbackPeriod p) of
        Inl e \<Rightarrow> Inl e
      | Inr rationalQuadraticKernel_expr \<Rightarrow>
          Inr (probabilities_lazy
                 (lagged_count (lookbackPeriod p) (gt_lit rationalQuadraticKernel_expr 0))
                 (lagged_count (lookbackPeriod p) (lt_lit rationalQuadraticKernel_expr 0))))"

definition rsi_probabilities_lazy :: "talib \<Rightarrow> params \<Rightarrow> bar list \<Rightarrow> cell list \<times> cell list" where
  "rsi_probabilities_lazy ta p df =
     (let rsiValue_expr = rsi ta (col Close df) (rsiPeriod p)
      in probabilities_lazy
           (lagged_count (lookbackPeriod p) (gt_lit rsiValue_expr 50))
           (lagged_count (lookbackPeriod p) (lt_lit rsiValue_expr 50)))"

definition adx_probabilities_lazy ::
  "talib \<Rightarrow> params \<Rightarrow> bar list \<Rightarrow> error + cell list \<times> cell list" where
  "adx_probabilities_lazy ta p df =
     (case internal_ProbTrend_adx_lazy ta df (adxPeriod p) (adxPeriod p) of
        Inl e \<Rightarrow> Inl e
      | Inr (adx_expr, plus_expr, minus_expr) \<Rightarrow>
          let rolled_adx_condition_expr = lagged_count (lookbackPeriod p) (gt_lit adx_expr 25);
              upwardTrendsADX_expr =
                when_then_otherwise (map2 cgt plus_expr minus_expr) rolled_adx_condition_expr
                  (lit (Val 0) rolled_adx_condition_expr);
              downwardTrendsADX_expr =
                when_then_otherwise (map2 clt plus_expr minus_expr) rolled_adx_condition_expr
                  (lit (Val 0) rolled_adx_condition_expr)
          in Inr (probabilities_lazy upwardTrendsADX_expr downwardTrendsADX_expr))"

definition cci_probabilities_lazy :: "talib \<Rightarrow> params \<Rightarrow> bar list \<Rightarrow> cell list \<times> cell list" where
  "cci_probabilities_lazy ta p df =
     (let cciValue_expr = cci ta (col Close df) (col Close df) (col Close df) (cciPeriod p)
      in probabilities_lazy
           (lagged_count (lookbackPeriod p) (gt_lit cciValue_expr 0))
           (lagged_count (lookbackPeriod p) (lt_lit cciValue_expr 0)))"

definition vwma_probabilities_lazy :: "talib \<Rightarrow> params \<Rightarrow> bar list \<Rightarrow> cell list \<times> cell list" where
  "vwma_probabilities_lazy ta p df =
     (let sma_vol_x_close_expr = sma ta (map2 cmul (col Volume df) (col Close df)) (vwmaPeriod p);
          sma_vol_expr = sma ta (col Volume df) (vwmaPeriod p);
          safe_sma_vol_expr = when_eq0_None sma_vol_expr;
          vwmaValue_expr = map2 cdiv sma_vol_x_close_expr safe_sma_vol_expr
      in probabilities_lazy
           (lagged_count (lookbackPeriod p) (map2 cgt vwmaValue_expr (col Close df)))
           (lagged_count (lookbackPeriod p) (map2 clt vwmaValue_expr (col Close df))))"

text \<open>The weights of this variant, after \<open>float(...)\<close>: unchanged.\<close>

definition weights_lazy :: "params \<Rightarrow> real list" where
  "weights_lazy p = [weightPrice p, weightRSI p, weightADX p, weightCCI p, weightVWMA p]"

definition combinedOscillatorValue_lazy ::
  "talib \<Rightarrow> params \<Rightarrow> bar list \<Rightarrow> error + cell list" where
  "combinedOscillatorValue_lazy ta p df =
     (case price_probabilities_lazy p df of
        Inl e \<Rightarrow> Inl e
      | Inr price \<Rightarrow>
          (case adx_probabilities_lazy ta p df of
             Inl e \<Rightarrow> Inl e
           | Inr adx \<Rightarrow>
               Inr (oscillator_of (weights_lazy p)
                      [price, rsi_probabilities_lazy ta p df, adx, cci_probabilities_lazy ta p df,
                       vwma_probabilities_lazy ta p df])))"

definition ProbTrend_lazy :: "talib \<Rightarrow> params \<Rightarrow> bar list \<Rightarrow> error + cell list" where
  "ProbTrend_lazy ta p df =
     (case combinedOscillatorValue_lazy ta p df of
        Inl e \<Rightarrow> Inl e
      | Inr osc \<Rightarrow> Inr (signal_of osc))"

section \<open>A reference backend\<close>

text \<open>
  A concrete instance of the four library functions, used to run the program on
  concrete frames. It follows the library's formulas on columns of finite numbers:
  the first outputs (the function's lookback) are NaN. A column with a cell that is
  not a finite number gives an all-NaN result here, and periods the library rejects
  are not distinguished.
\<close>

fun val_of :: "cell \<Rightarrow> real option" where
  "val_of (Val x) = Some x"
| "val_of _ = None"

definition vals_of :: "cell list \<Rightarrow> real list option" where
  "vals_of xs = those (map val_of xs)"

fun trange_from :: "real \<Rightarrow> real list \<Rightarrow> real list \<Rightarrow> real list \<Rightarrow> cell list" where
  "trange_from prev (h # hs) (l # ls) (c # cs) =
     Val (max (h - l) (max \<bar>h - prev\<bar> \<bar>l - prev\<bar>)) # trange_from c hs ls cs"
| "trange_from prev _ _ _ = []"

definition trange_ref :: "cell list \<Rightarrow> cell list \<Rightarrow> cell list \<Rightarrow> cell list" where
  "trange_ref cl hi lo =
     (case (vals_of cl, vals_of hi, vals_of lo) of
        (Some (c # cs), Some (h # hs), Some (l # ls)) \<Rightarrow> NaN # trange_from c hs ls cs
      | (Some [], _, _) \<Rightarrow> []
      | _ \<Rightarrow> lit NaN cl)"

definition sma_ref :: "cell list \<Rightarrow> nat \<Rightarrow> cell list" where
  "sma_ref xs t =
     (case vals_of xs of
        None \<Rightarrow> lit NaN xs
      | Some vs \<Rightarrow>
          map (\<lambda>i. case window_at t vs i of
                      None \<Rightarrow> NaN
                    | Some win \<Rightarrow> Val (sum_list win / real t)) [0..<length vs])"

definition rsi_value :: "real \<Rightarrow> real \<Rightarrow> cell" where
  "rsi_value gain loss = (if gain + loss = 0 then Val 0 else Val (100 * (gain / (gain + loss))))"

fun rsi_from :: "nat \<Rightarrow> real \<Rightarrow> real \<Rightarrow> real \<Rightarrow> real list \<Rightarrow> cell list" where
  "rsi_from t gain loss prev [] = []"
| "rsi_from t gain loss prev (x # xs) =
     (let gain' = (gain * (real t - 1) + max (x - prev) 0) / real t;
          loss' = (loss * (real t - 1) + max (prev - x) 0) / real t
      in rsi_value gain' loss' # rsi_from t gain' loss' x xs)"

definition rsi_ref :: "cell list \<Rightarrow> nat \<Rightarrow> cell list" where
  "rsi_ref xs t =
     (case vals_of xs of
        None \<Rightarrow> lit NaN xs
      | Some vs \<Rightarrow>
          if length vs \<le> t then lit NaN xs
          else
            let ds = map2 (\<lambda>x prev. x - prev) (tl (take (Suc t) vs)) (take t vs);
                gain = sum_list (map (\<lambda>d. max d 0) ds) / real t;
                loss = sum_list (map (\<lambda>d. max (- d) 0) ds) / real t
            in replicate t NaN @ rsi_value gain loss # rsi_from t gain loss (vs ! t) (drop (Suc t) vs))"

definition cci_at :: "nat \<Rightarrow> real list \<Rightarrow> nat \<Rightarrow> cell" where
  "cci_at t tp i =
     (case window_at t tp i of
        None \<Rightarrow> NaN
      | Some win \<Rightarrow>
          let avg = sum_list win / real t;
              md = sum_list (map (\<lambda>x. \<bar>x - avg\<bar>) win) / real t;
              d = tp ! i - avg
          in if d \<noteq> 0 \<and> md \<noteq> 0 then Val (d / (0.015 * md)) else Val 0)"

definition cci_ref :: "cell list \<Rightarrow> cell list \<Rightarrow> cell list \<Rightarrow> nat \<Rightarrow> cell list" where
  "cci_ref cl hi lo t =
     (case (vals_of cl, vals_of hi, vals_of lo) of
        (Some cs, Some hs, Some ls) \<Rightarrow>
          (let tp = map (\<lambda>(h, l, c). (h + l + c) / 3) (zip hs (zip ls cs))
           in map (cci_at t tp) [0..<length tp])
      | _ \<Rightarrow> lit NaN cl)"

definition talib_ref :: talib where
  "talib_ref = \<lparr> trange = trange_ref, rsi = rsi_ref, cci = cci_ref, sma = sma_ref \<rparr>"

text \<open>The default parameters of \<open>ProbTrend\<close>, and a frame from (high, low, close) rows.\<close>

definition default_params :: params where
  "default_params =
     \<lparr> lookbackPeriod = 43, source_col = Close, rsiPeriod = 14, adxPeriod = 6, cciPeriod = 13,
       vwmaPeriod = 9, weightPrice = 50, weightRSI = 20, weightADX = 15, weightCCI = 10,
       weightVWMA = 5 \<rparr>"

definition mk_bar :: "real \<Rightarrow> real \<Rightarrow> real \<Rightarrow> real \<Rightarrow> real \<Rightarrow> bar" where
  "mk_bar op h l c v = \<lparr> opn = Val op, high = Val h, low = Val l, close = Val c, volume = Val v \<rparr>"

section \<open>Concrete frames and parameter sets\<close>

text \<open>
  Frames of well-formed bars (low \<open>\<le>\<close> open, close \<open>\<le>\<close> high, volume 100): a rising
  one; one that rises and then falls, the same closes with other highs and lows, and
  the same highs and lows with other closes; a falling one; three identical bars
  with high = low = close (the true range is 0 from the second bar on); and a frame
  that opens with two such bars and then rises.
\<close>

definition rising_frame :: "bar list" where
  "rising_frame =
     [mk_bar 10 11 9 10 100, mk_bar 10 12 10 11 100, mk_bar 11 13 11 12 100,
      mk_bar 12 14 12 13 100]"

definition swing_frame :: "bar list" where
  "swing_frame =
     [mk_bar 10 11 9 10 100, mk_bar 10 12 10 11 100, mk_bar 11 13 11 12 100,
      mk_bar 12 12 10 11 100, mk_bar 11 11 9 10 100]"

definition swing_frame_wide :: "bar list" where
  "swing_frame_wide =
     [mk_bar 10 20 5 10 100, mk_bar 10 18 4 11 100, mk_bar 11 16 3 12 100,
      mk_bar 12 30 10 11 100, mk_bar 11 40 9 10 100]"

definition swing_frame_other_close :: "bar list" where
  "swing_frame_other_close =
     [mk_bar 10 11 9 10 100, mk_bar 10 12 10 10 100, mk_bar 11 13 11 11 100,
      mk_bar 11 12 10 12 100, mk_bar 11 11 9 11 100]"

definition falling_frame :: "bar list" where
  "falling_frame =
     [mk_bar 13 14 12 13 100, mk_bar 13 13 11 12 100, mk_bar 12 12 10 11 100,
      mk_bar 11 11 9 10 100]"

definition flat_frame :: "bar list" where
  "flat_frame = [mk_bar 10 10 10 10 100, mk_bar 10 10 10 10 100, mk_bar 10 10 10 10 100]"

definition halted_frame :: "bar list" where
  "halted_frame =
     [mk_bar 10 10 10 10 100, mk_bar 10 10 10 10 100, mk_bar 10 11 10 11 100,
      mk_bar 11 12 11 12 100, mk_bar 12 13 12 13 100]"

text \<open>
  Parameter sets: the defaults with lookback 1 (so that a few bars suffice), with
  lookback 1 and CCI period 2, with every weight 0, with only the ADX weighted, and with the default weights divided
  by 100 (they sum to 1); and the parameters with all five weights multiplied by \<open>c\<close>.
\<close>

definition lookback1_params :: params where
  "lookback1_params = default_params\<lparr>lookbackPeriod := 1\<rparr>"

definition short_cci_params :: params where
  "short_cci_params = default_params\<lparr>lookbackPeriod := 1, cciPeriod := 2\<rparr>"

definition zero_weight_params :: params where
  "zero_weight_params =
     default_params\<lparr>weightPrice := 0, weightRSI := 0, weightADX := 0, weightCCI := 0,
       weightVWMA := 0\<rparr>"

definition adx_only_params :: params where
  "adx_only_params =
     lookback1_params\<lparr>weightPrice := 0, weightRSI := 0, weightADX := 15, weightCCI := 0,
       weightVWMA := 0\<rparr>"

definition unit_sum_params :: params where
  "unit_sum_params =
     lookback1_params\<lparr>weightPrice := 0.5, weightRSI := 0.2, weightADX := 0.15,
       weightCCI := 0.1, weightVWMA := 0.05\<rparr>"

definition scale_weights :: "real \<Rightarrow> params \<Rightarrow> params" where
  "scale_weights c p =
     p\<lparr>weightPrice := c * weightPrice p, weightRSI := c * weightRSI p,
       weightADX := c * weightADX p, weightCCI := c * weightCCI p,
       weightVWMA := c * weightVWMA p\<rparr>"

section \<open>The window operations as the specification words them\<close>

text \<open>
  \<open>rollingSum(boolSeries, window)[i]\<close>: the sum of the available samples in
  \<open>[i - window + 1, i]\<close>; a partial window near the start sums the samples that exist.
\<close>

definition rollingSum_spec :: "nat \<Rightarrow> bcell list \<Rightarrow> nat \<Rightarrow> cell" where
  "rollingSum_spec w bs i =
     Val (real (length (filter (\<lambda>b. b = Some True) (take (min w (i + 1)) (drop (i + 1 - w) bs)))))"

text \<open>
  \<open>weightedRollingMean2(s, [w_prev, w_cur])[i] = w_prev*s[i-1] + w_cur*s[i]\<close> after
  replacing NaN and undefined inputs with 0 (for \<open>i \<ge> 1\<close>), and the kernel weight
  \<open>w(k) = (1 + k^2 / (2 * lookback^2))^(-1)\<close>.
\<close>

definition kernel_weight_spec :: "nat \<Rightarrow> real \<Rightarrow> real" where
  "kernel_weight_spec lookback k = inverse (1 + k\<^sup>2 / (2 * (real lookback)\<^sup>2))"

definition weightedRollingMean2_spec :: "real \<times> real \<Rightarrow> cell list \<Rightarrow> nat \<Rightarrow> cell" where
  "weightedRollingMean2_spec w s i =
     (let z = fill_null (Val 0) (fill_nan (Val 0) s)
      in cadd (cmul (Val (fst w)) (z ! (i - 1))) (cmul (Val (snd w)) (z ! i)))"



section \<open>Notions used in the proofs\<close>



text \<open>
  The whole number of hundredths that \<open>(a / t * 100).round(2)\<close> arrives at before its
  final division by 100.
\<close>

definition hundredths :: "real \<Rightarrow> real \<Rightarrow> int" where
  "hundredths a t = round_half_even (fl (fl (fl (a / t) * 100) * 100))"

text \<open>A cell of a count column: null, or a number that is not negative.\<close>

definition count_cell :: "cell \<Rightarrow> bool" where
  "count_cell c = (case c of Null \<Rightarrow> True | Val a \<Rightarrow> 0 \<le> a | _ \<Rightarrow> False)"

section \<open>The signal latch\<close>

lemma length_forward_fill_from: "length (forward_fill_from prev xs) = length xs"
  by (induction xs arbitrary: prev) auto

lemma forward_fill_from_set: "set (forward_fill_from prev xs) \<subseteq> insert prev (set xs)"
  by (induction xs arbitrary: prev) auto

lemma forward_fill_from_defined:
  "prev \<noteq> Null \<Longrightarrow> Null \<notin> set (forward_fill_from prev xs)"
  by (induction xs arbitrary: prev) auto

lemma forward_fill_from_latch:
  "i \<le> j \<Longrightarrow> j < length xs \<Longrightarrow> forward_fill_from prev xs ! i \<noteq> Null
     \<Longrightarrow> forward_fill_from prev xs ! j \<noteq> Null"
proof (induction xs arbitrary: prev i j)
  case Nil
  then show ?case by simp
next
  case (Cons x xs)
  show ?case
  proof (cases "x = Null \<and> prev = Null")
    case True
    with Cons.prems obtain i' where i': "i = Suc i'"
      by (cases i) auto
    with Cons.prems obtain j' where j': "j = Suc j'"
      by (cases j) auto
    from Cons.prems True i' j'
    have "forward_fill_from Null xs ! i' \<noteq> Null" "i' \<le> j'" "j' < length xs"
      by auto
    then have "forward_fill_from Null xs ! j' \<noteq> Null"
      using Cons.IH by blast
    with True j' show ?thesis by simp
  next
    case False
    then have "Null \<notin> set (forward_fill_from prev (x # xs))"
      by (auto simp: forward_fill_from_defined)
    moreover have "forward_fill_from prev (x # xs) ! j \<in> set (forward_fill_from prev (x # xs))"
      using Cons.prems(2) by (intro nth_mem) (simp add: length_forward_fill_from)
    ultimately show ?thesis by metis
  qed
qed

lemma raw_signal_values: "raw_signal u d \<in> {Val 1, Val (- 1), Null}"
  by (simp add: raw_signal_def)

lemma signal_of_values: "set (signal_of osc) \<subseteq> {Val 1, Val (- 1), Null}"
proof -
  have "set (map2 raw_signal us ds) \<subseteq> {Val 1, Val (- 1), Null}" for us ds
    using raw_signal_values by (auto simp: set_zip)
  then show ?thesis
    unfolding signal_of_def forward_fill_def
    using forward_fill_from_set by fast
qed

lemma signal_of_latch:
  "i \<le> j \<Longrightarrow> j < length (signal_of osc) \<Longrightarrow> signal_of osc ! i \<noteq> Null
     \<Longrightarrow> signal_of osc ! j \<noteq> Null"
  unfolding signal_of_def forward_fill_def
  using forward_fill_from_latch[of i j] by (simp add: length_forward_fill_from)

lemma ProbTrend_is_signal:
  "ProbTrend ta p df = Inr s \<or> ProbTrend_lazy ta p df = Inr s \<Longrightarrow> \<exists>osc. s = signal_of osc"
  by (auto simp: ProbTrend_def ProbTrend_lazy_def split: sum.splits)

text \<open>
  C2. Whatever the frame, the parameters and the backend, a series returned by
  either variant of \<open>ProbTrend\<close> holds only \<open>+1.0\<close>, \<open>-1.0\<close> and null, and once a
  position is not null no later position is null: the nulls are a prefix.
\<close>

theorem ProbTrend_signal_latch:
  assumes "ProbTrend ta p df = Inr s \<or> ProbTrend_lazy ta p df = Inr s"
  shows "set s \<subseteq> {Val 1, Val (- 1), Null}
         \<and> (\<forall>i j. i \<le> j \<and> j < length s \<and> s ! i \<noteq> Null \<longrightarrow> s ! j \<noteq> Null)"
proof -
  from assms obtain osc where s: "s = signal_of osc"
    using ProbTrend_is_signal by blast
  have "set s \<subseteq> {Val 1, Val (- 1), Null}"
    unfolding s by (rule signal_of_values)
  moreover have "\<forall>i j. i \<le> j \<and> j < length s \<and> s ! i \<noteq> Null \<longrightarrow> s ! j \<noteq> Null"
    unfolding s using signal_of_latch by blast
  ultimately show ?thesis by blast
qed

theorem ProbTrend_signal_latch_witness:
  "ProbTrend talib_ref lookback1_params rising_frame = Inr [Null, Val 1, Val 1, Val 1]
   \<and> set [Null, Val 1, Val 1, Val 1] \<subseteq> {Val 1, Val (- 1), Null}
   \<and> [Null, Val 1, Val 1, Val 1 :: cell] ! 3 \<noteq> Null"
proof -
  have run: "ProbTrend talib_ref lookback1_params rising_frame = Inr [Null, Val 1, Val 1, Val 1]"
    by code_simp
  from ProbTrend_signal_latch[of talib_ref lookback1_params rising_frame
      "[Null, Val 1, Val 1, Val 1]"] run
  show ?thesis by simp
qed

section \<open>Rolling sums\<close>

lemma rolling_sum_nth:
  "i < length bs \<Longrightarrow> rolling_sum w bs ! i = rolling_sum_at w bs i"
  by (simp add: rolling_sum_def)

text \<open>
  C5 as stated fails: with the default \<open>min_samples\<close> a partial window at the start is
  null, not the sum of the samples that exist, and the lag of one bar adds one more
  null position.
\<close>

theorem rolling_sum_partial_window_counterexample:
  "rolling_sum 2 [Some True, Some True, Some False] ! 0 = Null
   \<and> rollingSum_spec 2 [Some True, Some True, Some False] 0 = Val 1
   \<and> rolling_sum 2 [Some True, Some True, Some False] ! 0
       \<noteq> rollingSum_spec 2 [Some True, Some True, Some False] 0
   \<and> lagged_count 2 [Some True, Some True, Some False] = [Null, Null, Val 2]"
  by code_simp

text \<open>
  C5, amended. At a position \<open>i\<close> whose full window \<open>[i - w + 1, i]\<close> lies inside the
  column and holds no null, the rolling sum is the number of true samples in that
  window, as the specification says; at every other position (a partial window at
  the start, or a window with a null) it is null.
\<close>

theorem rolling_sum_full_window:
  assumes "i < length bs"
  shows "rolling_sum w bs ! i =
           (if w \<le> i + 1 \<and> None \<notin> set (take w (drop (i + 1 - w) bs))
            then rollingSum_spec w bs i else Null)"
proof (cases "w \<le> i + 1")
  case True
  then have "min w (i + 1) = w" by simp
  with True assms show ?thesis
    by (simp add: rolling_sum_nth rolling_sum_at_def window_at_def rollingSum_spec_def)
next
  case False
  with assms show ?thesis
    by (simp add: rolling_sum_nth rolling_sum_at_def window_at_def)
qed

theorem rolling_sum_full_window_witness:
  "(1::nat) < length [Some True, Some True, Some False]
   \<and> rolling_sum 2 [Some True, Some True, Some False] ! 1 = Val 2
   \<and> rolling_sum 2 [Some True, Some True, Some False] ! 0 = Null"
  using rolling_sum_full_window[of 1 "[Some True, Some True, Some False]" 2]
        rolling_sum_full_window[of 0 "[Some True, Some True, Some False]" 2]
  by (simp add: rollingSum_spec_def)

section \<open>The two-tap kernel filter\<close>

lemma take2_drop: "Suc i < length xs \<Longrightarrow> take 2 (drop i xs) = [xs ! i, xs ! Suc i]"
proof -
  assume a: "Suc i < length xs"
  then have "drop i xs = xs ! i # drop (Suc i) xs"
    by (simp add: Cons_nth_drop_Suc)
  moreover from a have "drop (Suc i) xs = xs ! Suc i # drop (Suc (Suc i)) xs"
    by (simp add: Cons_nth_drop_Suc)
  ultimately show ?thesis by (simp add: numeral_2_eq_2)
qed

lemma fill_null_no_Null: "Null \<notin> set (fill_null (Val v) xs)"
proof -
  have "fill_null_cell (Val v) x \<noteq> Null" for x by (cases x) auto
  then show ?thesis unfolding fill_null_def by (metis (no_types) imageE list.set_map)
qed

lemma ratQ_weights_pos:
  "0 < lookback \<Longrightarrow>
   ratQ_weights lookback = Inr [kernel_weight_spec lookback 1, kernel_weight_spec lookback 0]"
  by (simp add: ratQ_weights_def kernel_weight_spec_def field_simps)

lemma kernel_weight_spec_pos: "0 < kernel_weight_spec lookback k"
proof -
  have "0 \<le> k\<^sup>2 / (2 * (real lookback)\<^sup>2)" by simp
  then have "0 < 1 + k\<^sup>2 / (2 * (real lookback)\<^sup>2)" by linarith
  then show ?thesis unfolding kernel_weight_spec_def by simp
qed

lemma rolling_mean2_at:
  assumes "Suc i < length xs" "xs ! i = Val a" "xs ! Suc i = Val b" "Null \<notin> set xs" "w1 + w0 \<noteq> 0"
  shows "rolling_mean [w1, w0] xs ! Suc i = Val ((w1 * a + w0 * b) / (w1 + w0))"
proof -
  have win: "window_at (Suc (Suc 0)) xs (Suc i) = Some [Val a, Val b]"
    using assms(1-3) take2_drop[of i xs] by (simp add: window_at_def numeral_2_eq_2)
  have "Null \<notin> set [Val a, Val b]" by simp
  have "rolling_mean [w1, w0] xs ! Suc i = rolling_mean_at [w1, w0] xs (Suc i)"
    using assms(1) by (simp add: rolling_mean_def)
  also have "\<dots> = Val (w1 / (w1 + w0) * a + (w0 / (w1 + w0) * b + 0))"
    using win by (simp add: rolling_mean_at_def)
  also have "w1 / (w1 + w0) * a + (w0 / (w1 + w0) * b + 0) = (w1 * a + w0 * b) / (w1 + w0)"
    by (simp add: add_divide_distrib)
  finally show ?thesis .
qed

lemma rolling_mean2_first: "xs \<noteq> [] \<Longrightarrow> rolling_mean [w1, w0] xs ! 0 = Null"
  by (cases xs) (simp_all add: rolling_mean_def rolling_mean_at_def window_at_def upt_rec)

text \<open>
  C7, amended. For a positive lookback the kernel weights are \<open>w(1)\<close> and \<open>w(0)\<close> as
  specified, and the filter is the weighted mean with these weights: after NaN and
  null inputs are replaced by 0, position \<open>i + 1\<close> holds
  \<open>(w(1) * s[i] + w(0) * s[i+1]) / (w(1) + w(0))\<close> and position 0 is null.
  For lookback 43 and the window \<open>[2, 4]\<close> the value is \<open>22192/7397\<close>, about 3.00014.
\<close>

theorem ratQ_normalised_mean:
  assumes "0 < lookback" and "Suc i < length s"
    and "fill_null (Val 0) (fill_nan (Val 0) s) ! i = Val a"
    and "fill_null (Val 0) (fill_nan (Val 0) s) ! Suc i = Val b"
  shows "ratQ_weights lookback = Inr [kernel_weight_spec lookback 1, kernel_weight_spec lookback 0]
         \<and> (\<exists>out. ratQ s lookback = Inr out \<and> out ! 0 = Null
               \<and> out ! Suc i =
                   Val ((kernel_weight_spec lookback 1 * a + kernel_weight_spec lookback 0 * b)
                        / (kernel_weight_spec lookback 1 + kernel_weight_spec lookback 0)))"
proof -
  let ?z = "fill_null (Val 0) (fill_nan (Val 0) s)"
  let ?w1 = "kernel_weight_spec lookback 1" and ?w0 = "kernel_weight_spec lookback 0"
  have w: "ratQ_weights lookback = Inr [?w1, ?w0]"
    using assms(1) by (rule ratQ_weights_pos)
  have len: "Suc i < length ?z" using assms(2) by (simp add: fill_null_def fill_nan_def)
  have "?w1 + ?w0 > 0" using kernel_weight_spec_pos[of lookback 1] kernel_weight_spec_pos[of lookback 0] by linarith
  then have nz: "?w1 + ?w0 \<noteq> 0" by simp
  have "rolling_mean [?w1, ?w0] ?z ! Suc i = Val ((?w1 * a + ?w0 * b) / (?w1 + ?w0))"
    using len assms(3,4) fill_null_no_Null nz by (rule rolling_mean2_at)
  moreover have "rolling_mean [?w1, ?w0] ?z ! 0 = Null"
    using len by (intro rolling_mean2_first) auto
  moreover have "ratQ s lookback = Inr (rolling_mean [?w1, ?w0] ?z)"
    by (simp add: ratQ_def w)
  ultimately show ?thesis using w by simp
qed

theorem ratQ_normalised_mean_witness:
  "ratQ_weights 43 = Inr [3698 / 3699, 1]
   \<and> ratQ [Val 2, Val 4] 43 = Inr [Null, Val (22192 / 7397)]
   \<and> (3.00013 :: real) < 22192 / 7397 \<and> (22192 / 7397 :: real) < 3.00014"
proof -
  have k1: "kernel_weight_spec 43 1 = 3698 / 3699" and k0: "kernel_weight_spec 43 0 = 1"
    by (simp_all add: kernel_weight_spec_def)
  have run: "ratQ [Val 2, Val 4] 43 = Inr [Null, Val (22192 / 7397)]"
    by code_simp
  from ratQ_normalised_mean[of 43 0 "[Val 2, Val 4]" 2 4] k1 k0 run
  show ?thesis by (simp add: fill_null_def fill_nan_def)
qed

text \<open>
  C7 as stated fails: on the window \<open>[2, 4]\<close> with lookback 43 the filter does not
  return the unnormalised sum \<open>w(1)*2 + w(0)*4\<close> (about 5.99946).
\<close>

theorem ratQ_unnormalised_sum_counterexample:
  "ratQ [Val 2, Val 4] 43 = Inr [Null, Val (22192 / 7397)]
   \<and> weightedRollingMean2_spec (kernel_weight_spec 43 1, kernel_weight_spec 43 0) [Val 2, Val 4] 1
       = Val (22192 / 3699)
   \<and> (5.99945 :: real) < 22192 / 3699 \<and> (22192 / 3699 :: real) < 5.99946
   \<and> (22192 / 7397 :: real) < 3.00014
   \<and> Val (22192 / 7397) \<noteq> Val (22192 / 3699)"
  by code_simp

section \<open>Exponential smoothing\<close>

















section \<open>Probability pairs\<close>

lemma when_eq0_None_eq: "when_eq0_None xs = replace_0_None xs"
proof -
  have "when_cell (ceq x (Val 0)) Null x = (if x = Val 0 then Null else x)" for x
    by (cases x) (simp_all add: when_cell_def)
  then show ?thesis by (simp add: when_eq0_None_def replace_0_None_def)
qed

lemma probabilities_lazy_eq: "probabilities_lazy up down = probabilities up down"
  by (simp add: probabilities_lazy_def probabilities_def when_eq0_None_eq Let_def)

subsection \<open>The error of rounding to a double\<close>

lemma pow2_pos: "0 < pow2 e"
  by (simp add: pow2_def)

lemma pow2_powr: "pow2 e = 2 powr (real_of_int e)"
proof (cases "0 \<le> e")
  case True
  then have "real_of_int e = real (nat e)" by simp
  then have "2 powr real_of_int e = (2::real) ^ nat e" by (simp only: powr_realpow zero_less_numeral)
  with True show ?thesis by (simp add: pow2_def)
next
  case False
  then have "real_of_int e = - real (nat (- e))" by simp
  then have "2 powr real_of_int e = 1 / (2::real) ^ nat (- e)"
    by (simp only: powr_minus_divide powr_realpow zero_less_numeral)
  with False show ?thesis by (simp add: pow2_def)
qed

lemma pow2_mono: "a \<le> b \<Longrightarrow> pow2 a \<le> pow2 b"
  by (simp add: pow2_powr)

lemma pow2_half: "pow2 e / 2 = pow2 (e - 1)"
  by (simp add: pow2_powr powr_diff)

lemma round_half_even_error: "\<bar>real_of_int (round_half_even z) - z\<bar> \<le> 1 / 2"
  unfolding round_half_even_def Let_def by (auto simp: abs_le_iff)

lemma round_half_even_nonneg: "0 \<le> z \<Longrightarrow> 0 \<le> round_half_even z"
  unfolding round_half_even_def Let_def by auto

lemma dbl_exponent_lower:
  assumes "x \<noteq> 0"
  shows "pow2 (dbl_exponent x) \<le> \<bar>x\<bar>"
proof (cases "1 \<le> \<bar>x\<bar>")
  case True
  let ?n = "\<lfloor>\<bar>x\<bar>\<rfloor>"
  from True have n: "0 < ?n" by linarith
  from bitlen_bounds[OF n] have "2 ^ nat (bitlen ?n - 1) \<le> ?n" by simp
  then have "(2::real) ^ nat (bitlen ?n - 1) \<le> real_of_int ?n"
    by (metis of_int_le_iff of_int_numeral of_int_power)
  also have "\<dots> \<le> \<bar>x\<bar>" by linarith
  finally have le: "(2::real) ^ nat (bitlen ?n - 1) \<le> \<bar>x\<bar>" .
  from n have "1 \<le> bitlen ?n" by (simp add: bitlen_alt_def)
  then have "pow2 (bitlen ?n - 1) = 2 ^ nat (bitlen ?n - 1)" by (simp add: pow2_def)
  with le True show ?thesis by (simp add: dbl_exponent_def)
next
  case False
  let ?m = "\<lceil>1 / \<bar>x\<bar>\<rceil>"
  from assms False have x: "0 < \<bar>x\<bar>" "\<bar>x\<bar> < 1" by auto
  then have "1 < 1 / \<bar>x\<bar>" by simp
  then have m: "0 < ?m - 1" by linarith
  from bitlen_bounds[OF m] have "?m - 1 < 2 ^ nat (bitlen (?m - 1))" by simp
  then have "?m \<le> 2 ^ nat (bitlen (?m - 1))" by simp
  then have "real_of_int ?m \<le> 2 ^ nat (bitlen (?m - 1))"
    by (metis of_int_le_iff of_int_numeral of_int_power)
  moreover have "1 / \<bar>x\<bar> \<le> real_of_int ?m" by linarith
  ultimately have "1 / \<bar>x\<bar> \<le> 2 ^ nat (bitlen (?m - 1))" by linarith
  then have inv: "1 / 2 ^ nat (bitlen (?m - 1)) \<le> \<bar>x\<bar>"
    using x(1) by (simp add: field_simps)
  from m have k: "1 \<le> bitlen (?m - 1)" by (simp add: bitlen_alt_def)
  then have "pow2 (- bitlen (?m - 1)) = 1 / 2 ^ nat (bitlen (?m - 1))"
    by (simp add: pow2_def)
  with inv False show ?thesis by (simp add: dbl_exponent_def)
qed

lemma fl_error_exponent:
  assumes "x \<noteq> 0"
  shows "\<bar>fl x - x\<bar> \<le> pow2 (dbl_exponent x - 53)"
proof -
  let ?u = "pow2 (dbl_exponent x - 52)"
  have u: "0 < ?u" by (rule pow2_pos)
  have "fl x - x = (real_of_int (round_half_even (x / ?u)) - x / ?u) * ?u"
    using assms u by (simp add: fl_def Let_def field_simps)
  then have "\<bar>fl x - x\<bar> = \<bar>real_of_int (round_half_even (x / ?u)) - x / ?u\<bar> * ?u"
    using u by (simp add: abs_mult)
  also have "\<dots> \<le> 1 / 2 * ?u"
    using round_half_even_error[of "x / ?u"] u by (intro mult_right_mono) auto
  also have "\<dots> = pow2 (dbl_exponent x - 53)"
    using pow2_half[of "dbl_exponent x - 52"] by simp
  finally show ?thesis .
qed

lemma fl_error:
  assumes "\<bar>x\<bar> < pow2 (E + 1)"
  shows "\<bar>fl x - x\<bar> \<le> pow2 (E - 53)"
proof (cases "x = 0")
  case True
  then show ?thesis using pow2_pos[of "E - 53"] by (simp add: fl_def)
next
  case False
  have "dbl_exponent x \<le> E"
  proof (rule ccontr)
    assume "\<not> dbl_exponent x \<le> E"
    then have "pow2 (E + 1) \<le> pow2 (dbl_exponent x)" by (intro pow2_mono) simp
    with dbl_exponent_lower[OF False] assms show False by linarith
  qed
  then have "pow2 (dbl_exponent x - 53) \<le> pow2 (E - 53)" by (intro pow2_mono) simp
  with fl_error_exponent[OF False] show ?thesis by linarith
qed

lemma fl_nonneg:
  assumes "0 \<le> x"
  shows "0 \<le> fl x"
proof -
  let ?u = "pow2 (dbl_exponent x - 52)"
  have "0 \<le> x / ?u" using assms pow2_pos[of "dbl_exponent x - 52"] by simp
  then have "0 \<le> round_half_even (x / ?u)" by (rule round_half_even_nonneg)
  then have "0 \<le> real_of_int (round_half_even (x / ?u)) * ?u"
    using pow2_pos[of "dbl_exponent x - 52"] by simp
  then show ?thesis by (simp add: fl_def Let_def)
qed

subsection \<open>The hundredths of a probability\<close>

lemma hundredths_close:
  assumes "0 \<le> a" "a \<le> t" "0 < t"
  shows "\<bar>real_of_int (hundredths a t) - 10000 * (a / t)\<bar> \<le> 1 / 2 + 1 / 1000000"
    and "0 \<le> hundredths a t"
proof -
  let ?x = "a / t"
  have x: "0 \<le> ?x" "?x \<le> 1" using assms by simp_all
  define q1 where "q1 = fl ?x"
  define q2 where "q2 = fl (q1 * 100)"
  define q3 where "q3 = fl (q2 * 100)"
  have p1: "pow2 (0 - 53) \<le> 1 / 10 ^ 15" "pow2 (7 - 53) \<le> 1 / 10 ^ 13"
    "pow2 (14 - 53) \<le> 1 / 10 ^ 11"
    by (simp_all add: pow2_def)
  have "\<bar>?x\<bar> < pow2 (0 + 1)" using x by (simp add: pow2_def)
  from fl_error[OF this] have e1: "\<bar>q1 - ?x\<bar> \<le> 1 / 10 ^ 15"
    unfolding q1_def using p1(1) by linarith
  have q1: "0 \<le> q1" unfolding q1_def using x(1) by (rule fl_nonneg)
  have small: "(1::real) / 10 ^ 15 \<le> 1" "(1::real) / 10 ^ 13 \<le> 1" by simp_all
  from e1 x small have q1u: "q1 \<le> 2" by linarith
  have "\<bar>q1 * 100\<bar> < pow2 (7 + 1)" using q1 q1u by (simp add: pow2_def)
  from fl_error[OF this] have e2: "\<bar>q2 - q1 * 100\<bar> \<le> 1 / 10 ^ 13"
    unfolding q2_def using p1(2) by linarith
  have q2: "0 \<le> q2" unfolding q2_def using q1 by (intro fl_nonneg) simp
  from e2 q1u small have q2u: "q2 \<le> 201" by linarith
  have "\<bar>q2 * 100\<bar> < pow2 (14 + 1)" using q2 q2u by (simp add: pow2_def)
  from fl_error[OF this] have e3: "\<bar>q3 - q2 * 100\<bar> \<le> 1 / 10 ^ 11"
    unfolding q3_def using p1(3) by linarith
  have q3: "0 \<le> q3" unfolding q3_def using q2 by (intro fl_nonneg) simp
  have tiny: "10000 * ((1::real) / 10 ^ 15) + 100 * (1 / 10 ^ 13) + 1 / 10 ^ 11 \<le> 1 / 1000000"
    by simp
  from e1 e2 e3 tiny have close: "\<bar>q3 - 10000 * ?x\<bar> \<le> 1 / 1000000"
    by linarith
  have h: "hundredths a t = round_half_even q3"
    by (simp add: hundredths_def q3_def q2_def q1_def)
  from round_half_even_error[of q3] close
  show "\<bar>real_of_int (hundredths a t) - 10000 * (a / t)\<bar> \<le> 1 / 2 + 1 / 1000000"
    unfolding h by linarith
  from q3 show "0 \<le> hundredths a t" unfolding h by (rule round_half_even_nonneg)
qed

lemma hundredths_sum:
  assumes "0 \<le> a" "0 \<le> b" "0 < a + b"
  shows "hundredths a (a + b) + hundredths b (a + b) \<in> {9999, 10000, 10001}"
proof -
  define xa where "xa = 10000 * (a / (a + b))"
  define xb where "xb = 10000 * (b / (a + b))"
  have "a / (a + b) + b / (a + b) = 1"
    using assms(3) by (simp add: add_divide_distrib[symmetric])
  then have tot: "xa + xb = 10000"
    unfolding xa_def xb_def by linarith
  have ca: "\<bar>real_of_int (hundredths a (a + b)) - xa\<bar> \<le> 1 / 2 + 1 / 1000000"
    unfolding xa_def using assms by (intro hundredths_close(1)) auto
  have cb: "\<bar>real_of_int (hundredths b (a + b)) - xb\<bar> \<le> 1 / 2 + 1 / 1000000"
    unfolding xb_def using assms by (intro hundredths_close(1)) auto
  from ca cb tot
  have "\<bar>real_of_int (hundredths a (a + b)) + real_of_int (hundredths b (a + b)) - 10000\<bar> < 2"
    by linarith
  then have "\<bar>hundredths a (a + b) + hundredths b (a + b) - 10000\<bar> < 2"
    by linarith
  then show ?thesis by auto
qed

subsection \<open>The pair at one bar\<close>

lemma ratio_pct_nth:
  "i < length u \<Longrightarrow> i < length t \<Longrightarrow>
   ratio_pct u t ! i
     = fill_null_cell (Val 0) (round2 (dbl (cmul (dbl (cdiv (u ! i) (t ! i))) (Val 100))))"
  by (simp add: ratio_pct_def fill_null_def)

lemma probabilities_nth:
  assumes "i < length up" "i < length down"
  shows "fst (probabilities up down) ! i =
           fill_null_cell (Val 0) (round2 (dbl (cmul (dbl (cdiv (up ! i)
             (if cadd (up ! i) (down ! i) = Val 0 then Null else cadd (up ! i) (down ! i))))
             (Val 100))))"
    and "snd (probabilities up down) ! i =
           fill_null_cell (Val 0) (round2 (dbl (cmul (dbl (cdiv (down ! i)
             (if cadd (up ! i) (down ! i) = Val 0 then Null else cadd (up ! i) (down ! i))))
             (Val 100))))"
  using assms by (simp_all add: probabilities_def Let_def ratio_pct_nth replace_0_None_def)

lemma probabilities_total_zero:
  assumes "i < length up" "i < length down" "up ! i = Val a" "down ! i = Val b" "a + b = 0"
  shows "fst (probabilities up down) ! i = Val 0 \<and> snd (probabilities up down) ! i = Val 0"
  using assms by (simp add: probabilities_nth)

lemma probabilities_total_nonzero:
  assumes "i < length up" "i < length down" "up ! i = Val a" "down ! i = Val b" "a + b \<noteq> 0"
  shows "fst (probabilities up down) ! i = Val (fl (real_of_int (hundredths a (a + b)) / 100))"
    and "snd (probabilities up down) ! i = Val (fl (real_of_int (hundredths b (a + b)) / 100))"
  using assms by (simp_all add: probabilities_nth hundredths_def)




section \<open>The CCI sub-indicator reads the close column only\<close>

text \<open>
  C10. The CCI call receives the close column as its high, low and close input, so
  two frames with the same close column (whatever their highs and lows) have the
  same CCI probability pair at every bar, in both variants.
\<close>

theorem cci_probabilities_close_only:
  assumes "map close df1 = map close df2"
  shows "cci_probabilities ta p df1 = cci_probabilities ta p df2
         \<and> cci_probabilities_lazy ta p df1 = cci_probabilities_lazy ta p df2"
  using assms by (simp add: cci_probabilities_def cci_probabilities_lazy_def)

text \<open>
  The witness uses a CCI period of 2 and a lookback of 1, so that the pair is not
  all zero on five bars. The two swing frames share their closes; a CCI fed with
  their real highs and lows tells them apart, the pair does not. A frame with the
  highs and lows of the first but other closes has another pair.
\<close>

theorem cci_probabilities_close_only_witness:
  "map close swing_frame = map close swing_frame_wide
   \<and> cci talib_ref (col Close swing_frame) (col High swing_frame) (col Low swing_frame) 2
       \<noteq> cci talib_ref (col Close swing_frame_wide) (col High swing_frame_wide)
            (col Low swing_frame_wide) 2
   \<and> cci_probabilities talib_ref short_cci_params swing_frame
       = ([Val 0, Val 100, Val 100, Val 100, Val 0], [Val 0, Val 0, Val 0, Val 0, Val 100])
   \<and> cci_probabilities talib_ref short_cci_params swing_frame_wide
       = cci_probabilities talib_ref short_cci_params swing_frame
   \<and> cci_probabilities_lazy talib_ref short_cci_params swing_frame_wide
       = cci_probabilities_lazy talib_ref short_cci_params swing_frame
   \<and> map high swing_frame_other_close = map high swing_frame
   \<and> map low swing_frame_other_close = map low swing_frame
   \<and> cci_probabilities talib_ref short_cci_params swing_frame_other_close
       \<noteq> cci_probabilities talib_ref short_cci_params swing_frame"
proof -
  have same: "map close swing_frame_wide = map close swing_frame"
    by (simp add: swing_frame_def swing_frame_wide_def mk_bar_def)
  have told_apart:
    "cci talib_ref (col Close swing_frame) (col High swing_frame) (col Low swing_frame) 2
       \<noteq> cci talib_ref (col Close swing_frame_wide) (col High swing_frame_wide)
            (col Low swing_frame_wide) 2"
    by code_simp
  have run: "cci_probabilities talib_ref short_cci_params swing_frame
       = ([Val 0, Val 100, Val 100, Val 100, Val 0], [Val 0, Val 0, Val 0, Val 0, Val 100])"
    by code_simp
  have other: "map high swing_frame_other_close = map high swing_frame"
    "map low swing_frame_other_close = map low swing_frame"
    by (simp_all add: swing_frame_def swing_frame_other_close_def mk_bar_def)
  have other_pair: "cci_probabilities talib_ref short_cci_params swing_frame_other_close
       \<noteq> cci_probabilities talib_ref short_cci_params swing_frame"
    by code_simp
  from cci_probabilities_close_only[OF same, of talib_ref short_cci_params]
    same told_apart run other other_pair
  show ?thesis by simp
qed

section \<open>Configuration is not validated\<close>

lemma ratQ_error_iff: "isl (ratQ s lookback) \<longleftrightarrow> lookback = 0"
  by (simp add: ratQ_def ratQ_weights_def)

lemma price_probabilities_error_iff:
  "isl (price_probabilities p df) \<longleftrightarrow> lookbackPeriod p = 0"
  "isl (price_probabilities_lazy p df) \<longleftrightarrow> lookbackPeriod p = 0"
  using ratQ_error_iff[of "priceChangePercentage (col (source_col p) df)" "lookbackPeriod p"]
        ratQ_error_iff[of "priceChangePercentage_lazy (col (source_col p) df)" "lookbackPeriod p"]
  by (auto simp: price_probabilities_def price_probabilities_lazy_def split: sum.splits)

lemma adx_probabilities_error_iff:
  "isl (adx_probabilities ta p df) \<longleftrightarrow> adxPeriod p = 0"
  "isl (adx_probabilities_lazy ta p df) \<longleftrightarrow> adxPeriod p = 0"
  by (auto simp: adx_probabilities_def adx_probabilities_lazy_def internal_ProbTrend_adx_def
      internal_ProbTrend_adx_lazy_def internal_ProbTrend_dirmov_def
      internal_ProbTrend_dirmov_lazy_def Let_def split: sum.splits prod.splits)

text \<open>
  C9 as stated fails: with every weight 0 (total weight 0) neither variant reports
  an error; the oscillator is computed as \<open>0/0\<close> at every bar and a signal series is
  derived from it.
\<close>

theorem ProbTrend_zero_weight_counterexample:
  "\<not> isl (ProbTrend talib_ref zero_weight_params rising_frame)
   \<and> \<not> isl (ProbTrend_lazy talib_ref zero_weight_params rising_frame)
   \<and> combinedOscillatorValue talib_ref zero_weight_params rising_frame = Inr [NaN, NaN, NaN, NaN]
   \<and> combinedOscillatorValue_lazy talib_ref zero_weight_params rising_frame
       = Inr [NaN, NaN, NaN, NaN]"
  by code_simp

text \<open>
  C9, amended. Neither variant checks its configuration. Whatever the weights, the
  only error of the program's own code is Python's \<open>ZeroDivisionError\<close>, raised
  while the kernel weights or the smoothing factor \<open>1.0/length\<close> are computed, exactly
  when \<open>lookbackPeriod\<close> or \<open>adxPeriod\<close> is 0; in every other case a signal series is
  returned. (Periods that the numeric libraries themselves reject are not modelled.)
\<close>

theorem ProbTrend_error_iff:
  "(isl (ProbTrend ta p df) \<longleftrightarrow> lookbackPeriod p = 0 \<or> adxPeriod p = 0)
   \<and> (isl (ProbTrend_lazy ta p df) \<longleftrightarrow> lookbackPeriod p = 0 \<or> adxPeriod p = 0)"
  using price_probabilities_error_iff[of p df] adx_probabilities_error_iff[of ta p df]
  by (auto simp: ProbTrend_def ProbTrend_lazy_def combinedOscillatorValue_def
      combinedOscillatorValue_lazy_def split: sum.splits)

section \<open>Rescaling the weights\<close>

lemma signed_inf_scale: "0 < c \<Longrightarrow> signed_inf (c * s) = signed_inf s"
  by (simp add: signed_inf_def zero_less_mult_iff mult_less_0_iff)

lemma cmul_Val_pos: "0 < c \<Longrightarrow> cmul (Val c) (signed_inf s) = signed_inf s"
  by (simp add: signed_inf_def)

lemma cmul_scale: "0 < c \<Longrightarrow> cmul (Val (c * w)) x = cmul (Val c) (cmul (Val w) x)"
  by (cases x) (simp_all add: signed_inf_def sgn_mult zero_less_mult_iff mult_less_0_iff sgn_real_def)

lemma cadd_scale: "0 < c \<Longrightarrow> cadd (cmul (Val c) a) (cmul (Val c) b) = cmul (Val c) (cadd a b)"
  by (cases a; cases b) (simp_all add: signed_inf_def algebra_simps)

lemma cdiv_scale: "0 < c \<Longrightarrow> cdiv (cmul (Val c) a) (Val (c * W)) = cdiv a (Val W)"
  by (cases a) (simp_all add: signed_inf_def zero_less_mult_iff mult_less_0_iff)

lemma map_cmul_scale:
  "0 < c \<Longrightarrow> map (cmul (Val (c * w))) xs = map (cmul (Val c)) (map (cmul (Val w)) xs)"
  by (simp add: cmul_scale)

lemma map2_cadd_scale:
  "0 < c \<Longrightarrow> map2 cadd (map (cmul (Val c)) xs) (map (cmul (Val c)) ys)
                = map (cmul (Val c)) (map2 cadd xs ys)"
  by (auto simp: zip_map_map cadd_scale)

lemma map_cdiv_scale:
  "0 < c \<Longrightarrow> map (\<lambda>x. cdiv x (Val (c * W))) (map (cmul (Val c)) xs) = map (\<lambda>x. cdiv x (Val W)) xs"
  by (simp add: cdiv_scale)

lemma weighted_combination_scale:
  assumes "0 < c"
  shows "weighted_combination [c * w1, c * w2, c * w3, c * w4, c * w5] [p1, p2, p3, p4, p5]
         = weighted_combination [w1, w2, w3, w4, w5] [p1, p2, p3, p4, p5]"
proof -
  have tot: "c * w1 + c * w2 + c * w3 + c * w4 + c * w5 = c * (w1 + w2 + w3 + w4 + w5)"
    by (simp add: algebra_simps)
  show ?thesis
    unfolding weighted_combination_def
    by (simp only: list.map prod.case list.case tot map_cmul_scale[OF assms]
        map2_cadd_scale[OF assms] map_cdiv_scale[OF assms])
qed

lemma oscillator_of_scale:
  assumes "0 < c"
  shows "oscillator_of [c * w1, c * w2, c * w3, c * w4, c * w5] [q1, q2, q3, q4, q5]
         = oscillator_of [w1, w2, w3, w4, w5] [q1, q2, q3, q4, q5]"
  unfolding oscillator_of_def Let_def list.map(2)[of fst] list.map(2)[of snd] list.map(1)
  using weighted_combination_scale[OF assms] by simp

lemma scale_weights_periods:
  "lookbackPeriod (scale_weights c p) = lookbackPeriod p"
  "source_col (scale_weights c p) = source_col p"
  "rsiPeriod (scale_weights c p) = rsiPeriod p"
  "adxPeriod (scale_weights c p) = adxPeriod p"
  "cciPeriod (scale_weights c p) = cciPeriod p"
  "vwmaPeriod (scale_weights c p) = vwmaPeriod p"
  by (simp_all add: scale_weights_def)

lemma weights_lazy_scale: "weights_lazy (scale_weights c p) = map ((*) c) (weights_lazy p)"
  by (simp add: weights_lazy_def scale_weights_def)

lemma combinedOscillatorValue_lazy_scale:
  assumes "0 < c"
  shows "combinedOscillatorValue_lazy ta (scale_weights c p) df = combinedOscillatorValue_lazy ta p df"
proof -
  have same:
    "price_probabilities_lazy (scale_weights c p) df = price_probabilities_lazy p df"
    "adx_probabilities_lazy ta (scale_weights c p) df = adx_probabilities_lazy ta p df"
    "rsi_probabilities_lazy ta (scale_weights c p) df = rsi_probabilities_lazy ta p df"
    "cci_probabilities_lazy ta (scale_weights c p) df = cci_probabilities_lazy ta p df"
    "vwma_probabilities_lazy ta (scale_weights c p) df = vwma_probabilities_lazy ta p df"
    unfolding price_probabilities_lazy_def adx_probabilities_lazy_def
        rsi_probabilities_lazy_def cci_probabilities_lazy_def vwma_probabilities_lazy_def
        scale_weights_periods
    by (rule refl)+
  have w: "weights_lazy (scale_weights c p)
           = [c * weightPrice p, c * weightRSI p, c * weightADX p, c * weightCCI p,
              c * weightVWMA p]"
    by (simp add: weights_lazy_def scale_weights_def)
  show ?thesis
    unfolding combinedOscillatorValue_lazy_def same w
    by (simp add: oscillator_of_scale[OF assms] weights_lazy_def split: sum.splits)
qed

text \<open>
  C3 holds for the deferred-expression variant (lemma above) but not for the
  whole-array variant, which truncates each weight with \<open>int(...)\<close> first: on the
  rising frame the default weights and the same weights scaled by \<open>1/10\<close>
  (\<open>5, 2, 1.5, 1, 0.5\<close>, truncated to \<open>5, 2, 1, 1, 0\<close>) give different oscillators.
\<close>

theorem combinedOscillatorValue_scaling_diverges:
  "combinedOscillatorValue talib_ref lookback1_params rising_frame
     = Inr [Val 0, Val 35, Val 85, Val 100]
   \<and> combinedOscillatorValue talib_ref (scale_weights (1 / 10) lookback1_params) rising_frame
     = Inr [Val 0, Val (100 / 3), Val (800 / 9), Val 100]
   \<and> combinedOscillatorValue_lazy talib_ref lookback1_params rising_frame
     = Inr [Val 0, Val 35, Val 85, Val 100]
   \<and> combinedOscillatorValue_lazy talib_ref (scale_weights (1 / 10) lookback1_params) rising_frame
     = Inr [Val 0, Val 35, Val 85, Val 100]"
  by code_simp

section \<open>The directional indicators at a zero true range\<close>

lemma cdiv_Null_right: "cdiv x Null = Null"
  by (cases x) simp_all

lemma when_eq0_None_nth:
  "i < length xs \<Longrightarrow> xs ! i = Val 0 \<Longrightarrow> when_eq0_None xs ! i = Null"
  by (simp add: when_eq0_None_def when_cell_def)

text \<open>
  The deferred-expression variant guards the division: where the smoothed true range
  is 0, both directional indicators are 0.
\<close>

lemma dirmov_lazy_zero_range:
  assumes "internal_ProbTrend_dirmov_lazy ta df len = Inr (pl, mi)"
    and "i < length pl" and "i < length mi"
    and "ewm_mean (1 / real len)
           (fill_nan Null (trange ta (col Close df) (col High df) (col Low df))) ! i = Val 0"
  shows "pl ! i = Val 0 \<and> mi ! i = Val 0"
proof -
  let ?T = "ewm_mean (1 / real len)
              (fill_nan Null (trange ta (col Close df) (col High df) (col Low df)))"
  let ?up = "diff (col High df)" and ?down = "map cneg (diff (col Low df))"
  let ?P = "map (\<lambda>x. cmul x (Val 100)) (ewm_mean (1 / real len) (fill_nan Null (int_plusDM ?up ?down)))"
  let ?M = "map (\<lambda>x. cmul x (Val 100)) (ewm_mean (1 / real len) (fill_nan Null (int_minusDM ?up ?down)))"
  from assms(1) have pl: "pl = fill_null (Val 0) (map2 cdiv ?P (when_eq0_None ?T))"
    and mi: "mi = fill_null (Val 0) (map2 cdiv ?M (when_eq0_None ?T))"
    by (simp_all add: internal_ProbTrend_dirmov_lazy_def Let_def split: if_splits)
  from assms(2) have iP: "i < length ?P" and iT: "i < length ?T"
    unfolding pl by (simp_all add: fill_null_def when_eq0_None_def)
  from assms(3) have iM: "i < length ?M"
    unfolding mi by (simp add: fill_null_def when_eq0_None_def)
  have guard: "when_eq0_None ?T ! i = Null"
    using iT assms(4) by (rule when_eq0_None_nth)
  have iG: "i < length (when_eq0_None ?T)"
    using iT by (simp add: when_eq0_None_def)
  have "pl ! i = fill_null_cell (Val 0) (cdiv (?P ! i) (when_eq0_None ?T ! i))"
    unfolding pl fill_null_def using iP iG by simp
  then have "pl ! i = fill_null_cell (Val 0) Null"
    by (simp only: guard cdiv_Null_right)
  moreover have "mi ! i = fill_null_cell (Val 0) (cdiv (?M ! i) (when_eq0_None ?T ! i))"
    unfolding mi fill_null_def using iM iG by simp
  then have "mi ! i = fill_null_cell (Val 0) Null"
    by (simp only: guard cdiv_Null_right)
  ultimately show ?thesis
    by simp
qed

text \<open>
  C4 fails for the whole-array variant, which divides by the smoothed true range
  unguarded and then only fills nulls: on flat bars the division is \<open>0/0\<close> and both
  directional indicators are NaN from the second bar on, where the
  deferred-expression variant gives 0.
\<close>

theorem dirmov_flat_bars_NaN:
  "internal_ProbTrend_dirmov talib_ref flat_frame 6
     = Inr ([Val 0, NaN, NaN], [Val 0, NaN, NaN])
   \<and> internal_ProbTrend_dirmov_lazy talib_ref flat_frame 6
     = Inr ([Val 0, Val 0, Val 0], [Val 0, Val 0, Val 0])
   \<and> ewm_mean (1 / 6) (fill_nan Null (trange talib_ref (col Close flat_frame)
         (col High flat_frame) (col Low flat_frame))) = [Null, Val 0, Val 0]"
  by code_simp

section \<open>Where the two variants agree\<close>

lemma replace_0_None_id: "Val 0 \<notin> set xs \<Longrightarrow> replace_0_None xs = xs"
  unfolding replace_0_None_def by (induction xs) auto

lemma set_shift1: "set (shift1 null xs) \<subseteq> insert null (set xs)"
  by (auto simp: shift1_def dest: in_set_butlastD)

lemma priceChangePercentage_lazy_eq:
  assumes "Val 0 \<notin> set src"
  shows "priceChangePercentage_lazy src = priceChangePercentage src"
proof -
  from assms set_shift1[of Null src] have "Val 0 \<notin> set (shift1 Null src)" by auto
  then show ?thesis
    by (simp add: priceChangePercentage_lazy_def priceChangePercentage_def Let_def
        when_eq0_None_eq replace_0_None_id)
qed

lemma internal_ProbTrend_dirmov_lazy_eq:
  assumes "Val 0 \<notin> set (ewm_mean (1 / real len)
             (fill_nan Null (trange ta (col Close df) (col High df) (col Low df))))"
  shows "internal_ProbTrend_dirmov_lazy ta df len = internal_ProbTrend_dirmov ta df len"
  unfolding internal_ProbTrend_dirmov_lazy_def internal_ProbTrend_dirmov_def Let_def
    when_eq0_None_eq replace_0_None_id[OF assms]
  by (rule refl)

lemma py_int_of_integer: "x \<in> \<int> \<Longrightarrow> of_int (py_int x) = x"
  by (auto simp: py_int_def elim!: Ints_cases)

lemma weights_eq:
  assumes "set (weights_lazy p) \<subseteq> \<int>"
  shows "weights p = weights_lazy p"
  using assms by (simp add: weights_def weights_lazy_def py_int_of_integer)

text \<open>
  With integer-valued weights, on a frame whose source column holds no 0 and whose
  smoothed true range is never exactly 0, the two variants return the same result
  (the same signal series, or the same error), for every backend and all periods:
  there the truncation of the weights and the zero guards make no difference.
\<close>

lemma ProbTrend_variants_agree:
  assumes "set (weights_lazy p) \<subseteq> \<int>"
    and "Val 0 \<notin> set (col (source_col p) df)"
    and "Val 0 \<notin> set (ewm_mean (1 / real (adxPeriod p))
           (fill_nan Null (trange ta (col Close df) (col High df) (col Low df))))"
  shows "ProbTrend_lazy ta p df = ProbTrend ta p df"
proof -
  have price: "price_probabilities_lazy p df = price_probabilities p df"
    unfolding price_probabilities_lazy_def price_probabilities_def
      priceChangePercentage_lazy_eq[OF assms(2)] probabilities_lazy_eq
    by (rule refl)
  have adx: "adx_probabilities_lazy ta p df = adx_probabilities ta p df"
    unfolding adx_probabilities_lazy_def adx_probabilities_def internal_ProbTrend_adx_lazy_def
      internal_ProbTrend_adx_def internal_ProbTrend_dirmov_lazy_eq[OF assms(3)]
      probabilities_lazy_eq
    by (rule refl)
  have rest: "rsi_probabilities_lazy ta p df = rsi_probabilities ta p df"
    "cci_probabilities_lazy ta p df = cci_probabilities ta p df"
    "vwma_probabilities_lazy ta p df = vwma_probabilities ta p df"
    unfolding rsi_probabilities_lazy_def rsi_probabilities_def cci_probabilities_lazy_def
      cci_probabilities_def vwma_probabilities_lazy_def vwma_probabilities_def
      probabilities_lazy_eq when_eq0_None_eq Let_def
    by (rule refl)+
  show ?thesis
    unfolding ProbTrend_lazy_def ProbTrend_def combinedOscillatorValue_lazy_def
      combinedOscillatorValue_def price adx rest weights_eq[OF assms(1)]
    by (rule refl)
qed

lemma ProbTrend_variants_agree_rising:
  "set (weights_lazy lookback1_params) \<subseteq> \<int>
   \<and> Val 0 \<notin> set (col (source_col lookback1_params) rising_frame)
   \<and> Val 0 \<notin> set (ewm_mean (1 / real (adxPeriod lookback1_params))
         (fill_nan Null (trange talib_ref (col Close rising_frame) (col High rising_frame)
            (col Low rising_frame))))
   \<and> ProbTrend_lazy talib_ref lookback1_params rising_frame
       = ProbTrend talib_ref lookback1_params rising_frame"
proof -
  have w: "set (weights_lazy lookback1_params) \<subseteq> \<int>"
    by (simp add: weights_lazy_def lookback1_params_def default_params_def)
  have src: "Val 0 \<notin> set (col (source_col lookback1_params) rising_frame)"
    by (simp add: lookback1_params_def default_params_def rising_frame_def mk_bar_def)
  have tr: "ewm_mean (1 / real (adxPeriod lookback1_params))
         (fill_nan Null (trange talib_ref (col Close rising_frame) (col High rising_frame)
            (col Low rising_frame))) = [Null, Val 2, Val 2, Val 2]"
    by code_simp
  have tr0: "Val 0 \<notin> set (ewm_mean (1 / real (adxPeriod lookback1_params))
         (fill_nan Null (trange talib_ref (col Close rising_frame) (col High rising_frame)
            (col Low rising_frame))))"
    unfolding tr by simp
  from ProbTrend_variants_agree[OF w src tr0] w src tr0 show ?thesis by blast
qed

text \<open>
  C1 fails outside that domain: the two variants do not always return the same
  signal series. On the frame that opens with two flat bars the whole-array
  variant's directional indicators are NaN at the second bar (its division by the
  smoothed true range is unguarded), its ADX is NaN from there on, and with only the
  ADX weighted (integer weights) the signals differ. With the default weights
  divided by 100 the whole-array variant truncates every weight to 0 and its
  oscillator is NaN at every bar, while the deferred-expression variant follows
  the falling prices.
\<close>

theorem ProbTrend_variants_diverge:
  "ProbTrend talib_ref adx_only_params halted_frame = Inr [Null, Null, Val 1, Val 1, Val 1]
   \<and> ProbTrend_lazy talib_ref adx_only_params halted_frame = Inr [Null, Null, Null, Null, Val 1]
   \<and> ProbTrend talib_ref unit_sum_params falling_frame = Inr [Val 1, Val 1, Val 1, Val 1]
   \<and> ProbTrend_lazy talib_ref unit_sum_params falling_frame
       = Inr [Null, Val 1, Val (- 1), Val (- 1)]
   \<and> combinedOscillatorValue talib_ref unit_sum_params falling_frame = Inr [NaN, NaN, NaN, NaN]"
  by code_simp

section \<open>The pairs of the five sub-indicators\<close>

lemma rolling_sum_at_count: "count_cell (rolling_sum_at w bs i)"
  by (simp add: rolling_sum_at_def count_cell_def split: option.splits)

lemma lagged_count_cells: "i < length (lagged_count w bs) \<Longrightarrow> count_cell (lagged_count w bs ! i)"
  by (simp add: lagged_count_def rolling_sum_def rolling_sum_at_count)

lemma when_lit0_count:
  assumes "i < length (when_then_otherwise cs rolled (lit (Val 0) rolled))"
    and "\<forall>j < length rolled. count_cell (rolled ! j)"
  shows "count_cell (when_then_otherwise cs rolled (lit (Val 0) rolled) ! i)"
  using assms by (simp add: when_then_otherwise_def lit_def when_cell_def count_cell_def)

lemma length_probabilities:
  "length (fst (probabilities up down)) = min (length up) (length down)"
  "length (snd (probabilities up down)) = min (length up) (length down)"
  by (simp_all add: probabilities_def Let_def ratio_pct_def fill_null_def replace_0_None_def)

lemma probabilities_pair_count:
  assumes "i < length up" "i < length down" "count_cell (up ! i)" "count_cell (down ! i)"
  shows "(fst (probabilities up down) ! i = Val 0 \<and> snd (probabilities up down) ! i = Val 0)
         \<or> (\<exists>ka kb. fst (probabilities up down) ! i = Val (fl (real_of_int ka / 100))
               \<and> snd (probabilities up down) ! i = Val (fl (real_of_int kb / 100))
               \<and> 0 \<le> ka \<and> 0 \<le> kb \<and> ka + kb \<in> {9999, 10000, 10001})"
proof (cases "up ! i = Null \<or> down ! i = Null")
  case True
  then have "cadd (up ! i) (down ! i) = Null"
    by (cases "up ! i") auto
  then show ?thesis
    using assms(1,2) by (simp add: probabilities_nth cdiv_Null_right)
next
  case False
  with assms(3,4) obtain a b where ab: "up ! i = Val a" "down ! i = Val b" "0 \<le> a" "0 \<le> b"
    by (auto simp: count_cell_def split: cell.splits)
  show ?thesis
  proof (cases "a + b = 0")
    case True
    with probabilities_total_zero[OF assms(1,2) ab(1,2)] show ?thesis by simp
  next
    case False
    with ab(3,4) have t: "0 < a + b" by linarith
    have "a \<le> a + b" "b \<le> a + b" using ab(3,4) by simp_all
    with ab(3,4) t have "0 \<le> hundredths a (a + b)" "0 \<le> hundredths b (a + b)"
      by (auto intro: hundredths_close(2))
    with probabilities_total_nonzero[OF assms(1,2) ab(1,2) False] hundredths_sum[OF ab(3,4) t]
    show ?thesis by blast
  qed
qed

text \<open>
  At every bar, the pair of each of the five sub-indicators is either (0, 0) or made
  of two whole numbers of hundredths that add up to 9999, 10000 or 10001, in both
  variants and for every backend.
\<close>

lemma sub_indicator_pair_sum:
  assumes "price_probabilities p df = Inr pr \<or> price_probabilities_lazy p df = Inr pr
           \<or> pr = rsi_probabilities ta p df \<or> pr = rsi_probabilities_lazy ta p df
           \<or> adx_probabilities ta p df = Inr pr \<or> adx_probabilities_lazy ta p df = Inr pr
           \<or> pr = cci_probabilities ta p df \<or> pr = cci_probabilities_lazy ta p df
           \<or> pr = vwma_probabilities ta p df \<or> pr = vwma_probabilities_lazy ta p df"
    and "i < length (fst pr)"
  shows "(fst pr ! i = Val 0 \<and> snd pr ! i = Val 0)
         \<or> (\<exists>ka kb. fst pr ! i = Val (fl (real_of_int ka / 100))
               \<and> snd pr ! i = Val (fl (real_of_int kb / 100))
               \<and> 0 \<le> ka \<and> 0 \<le> kb \<and> ka + kb \<in> {9999, 10000, 10001})"
proof -
  have lag: "\<forall>j < length (lagged_count w bs). count_cell (lagged_count w bs ! j)" for w bs
    using lagged_count_cells by blast
  have adx: "\<forall>j < length (when_then_otherwise cs (lagged_count w bs) (lit (Val 0) (lagged_count w bs))).
               count_cell (when_then_otherwise cs (lagged_count w bs) (lit (Val 0) (lagged_count w bs)) ! j)"
    for cs w bs
    using when_lit0_count lag by blast
  from assms(1) obtain up down where pr: "pr = probabilities up down"
    and up: "\<forall>j < length up. count_cell (up ! j)"
    and down: "\<forall>j < length down. count_cell (down ! j)"
    unfolding price_probabilities_def price_probabilities_lazy_def rsi_probabilities_def
      rsi_probabilities_lazy_def adx_probabilities_def adx_probabilities_lazy_def
      cci_probabilities_def cci_probabilities_lazy_def vwma_probabilities_def
      vwma_probabilities_lazy_def probabilities_lazy_eq Let_def
    using lag adx by (auto split: sum.splits prod.splits)
  from assms(2) have i: "i < length up" "i < length down"
    unfolding pr by (simp_all add: length_probabilities)
  from probabilities_pair_count[OF i] up down i show ?thesis
    unfolding pr by blast
qed

end
